theory Spec2Isabelle
  imports Main "HOL-Library.Word"
begin

unbundle bit_operations_syntax

section \<open>Syntax trees and cursors\<close>

text \<open>
  The quick fixes of \<^verbatim>\<open>quickfixes.ts\<close> walk the concrete syntax tree that the Slang
  parser returns for the text of a document. The parser is an external library; of its
  tree only the shape matters here: a node is a terminal (a token kind and the token's
  text) or a nonterminal (a rule kind and the children). The kinds the fixes look for are
  constructors of their own, every other kind is carried by name.
\<close>

datatype NonterminalKind =
    SourceUnit
  | ContractDefinition
  | ConstructorDefinition
  | FunctionBody
  | Block
  | OtherNonterminal string

datatype TerminalKind =
    SingleLineNatSpecComment
  | OpenBrace
  | CloseBrace
  | Identifier
  | OtherTerminal string

datatype Node =
    TerminalNode TerminalKind string
  | NonterminalNode NonterminalKind "Node list"

text \<open>
  A text range is a pair of offsets into the document (start, end). Ranges of the
  language server protocol and ranges of the parser are kept in this one coordinate
  space.
\<close>

type_synonym TextRange = "nat \<times> nat"

text \<open>\<^verbatim>\<open>node.unparse()\<close>: the text a node covers, the texts of its tokens in order.\<close>

fun unparse :: "Node \<Rightarrow> string" where
  "unparse (TerminalNode k t) = t"
| "unparse (NonterminalNode k cs) = concat (map unparse cs)"

text \<open>
  The strict descendants of a node in document order (pre-order), each with the range of
  text it covers, for a node that starts at offset \<open>off\<close>. This is the sequence of
  positions that repeated \<^verbatim>\<open>goToNext()\<close> visits on a cursor spawned at the node.
\<close>

fun descendants :: "nat \<Rightarrow> Node \<Rightarrow> (Node \<times> TextRange) list"
  and descendantsList :: "nat \<Rightarrow> Node list \<Rightarrow> (Node \<times> TextRange) list" where
  "descendants off (TerminalNode k t) = []"
| "descendants off (NonterminalNode k cs) = descendantsList off cs"
| "descendantsList off [] = []"
| "descendantsList off (c # cs) =
     (c, (off, off + length (unparse c))) # descendants off c
       @ descendantsList (off + length (unparse c)) cs"

text \<open>
  A cursor of the parser's library: the position it stands at (\<open>cur\<close>), the positions
  still ahead of it inside the subtree it was created for (\<open>pending\<close>), the root of that
  subtree (\<open>origin\<close>) and whether it has run off the end. The library walks the tree in
  pre-order; a move that finds nothing returns false and leaves the cursor finished and
  at its root.
\<close>

record Cursor =
  cur :: "Node \<times> TextRange"
  pending :: "(Node \<times> TextRange) list"
  origin :: "Node \<times> TextRange"
  isCompleted :: bool

text \<open>\<^verbatim>\<open>parseOutput.createTreeCursor()\<close>: a cursor on the root, at offset 0.\<close>

definition createTreeCursor :: "Node \<Rightarrow> Cursor" where
  "createTreeCursor root =
     \<lparr> cur = (root, (0, length (unparse root))),
       pending = descendants 0 root,
       origin = (root, (0, length (unparse root))),
       isCompleted = False \<rparr>"

text \<open>
  \<^verbatim>\<open>cursor.spawn()\<close>: a fresh cursor whose root is the current node; it keeps the text
  offset and cannot leave the subtree of that node.
\<close>

definition spawn :: "Cursor \<Rightarrow> Cursor" where
  "spawn c =
     \<lparr> cur = cur c,
       pending = descendants (fst (snd (cur c))) (fst (cur c)),
       origin = cur c,
       isCompleted = False \<rparr>"

definition node :: "Cursor \<Rightarrow> Node" where
  "node c = fst (cur c)"

definition textRange :: "Cursor \<Rightarrow> TextRange" where
  "textRange c = snd (cur c)"

text \<open>
  The search the \<^verbatim>\<open>goToNext...WithKind\<close> family shares: step forward until a node
  satisfies the test. \<open>seek\<close> returns the first such position ahead and what is left
  after it.
\<close>

fun seek :: "(Node \<Rightarrow> bool) \<Rightarrow> (Node \<times> TextRange) list
    \<Rightarrow> ((Node \<times> TextRange) \<times> (Node \<times> TextRange) list) option" where
  "seek P [] = None"
| "seek P (x # xs) = (if P (fst x) then Some (x, xs) else seek P xs)"

definition goToNextWith :: "(Node \<Rightarrow> bool) \<Rightarrow> Cursor \<Rightarrow> bool \<times> Cursor" where
  "goToNextWith P c =
     (if isCompleted c then (False, c)
      else (case seek P (pending c) of
              None \<Rightarrow> (False, c\<lparr> cur := origin c, pending := [], isCompleted := True \<rparr>)
            | Some (x, xs) \<Rightarrow> (True, c\<lparr> cur := x, pending := xs \<rparr>)))"

fun isTerminalWithKind :: "TerminalKind \<Rightarrow> Node \<Rightarrow> bool" where
  "isTerminalWithKind k (TerminalNode k' t) = (k' = k)"
| "isTerminalWithKind k (NonterminalNode k' cs) = False"

fun isNonterminalWithKinds :: "NonterminalKind list \<Rightarrow> Node \<Rightarrow> bool" where
  "isNonterminalWithKinds ks (TerminalNode k' t) = False"
| "isNonterminalWithKinds ks (NonterminalNode k' cs) = (k' \<in> set ks)"

definition goToNextTerminalWithKind :: "TerminalKind \<Rightarrow> Cursor \<Rightarrow> bool \<times> Cursor" where
  "goToNextTerminalWithKind k = goToNextWith (isTerminalWithKind k)"

definition goToNextNonterminalWithKinds :: "NonterminalKind list \<Rightarrow> Cursor \<Rightarrow> bool \<times> Cursor" where
  "goToNextNonterminalWithKinds ks = goToNextWith (isNonterminalWithKinds ks)"

definition goToNextNonterminalWithKind :: "NonterminalKind \<Rightarrow> Cursor \<Rightarrow> bool \<times> Cursor" where
  "goToNextNonterminalWithKind k = goToNextNonterminalWithKinds [k]"

text \<open>
  JavaScript's \<^verbatim>\<open>String.prototype.includes\<close>: whether \<open>sub\<close> occurs in \<open>s\<close> as a
  contiguous substring.
\<close>

fun startsWith :: "string \<Rightarrow> string \<Rightarrow> bool" where
  "startsWith s [] = True"
| "startsWith [] (c # cs) = False"
| "startsWith (x # xs) (c # cs) = (x = c \<and> startsWith xs cs)"

fun includesStr :: "string \<Rightarrow> string \<Rightarrow> bool" where
  "includesStr [] sub = (sub = [])"
| "includesStr (x # xs) sub = (startsWith (x # xs) sub \<or> includesStr xs sub)"


lemma seek_shorter: "seek P xs = Some (x, ys) \<Longrightarrow> length ys < length xs"
  by (induction xs) (auto split: if_splits)

lemma goToNextWith_shorter:
  "goToNextWith P c = (True, c') \<Longrightarrow> length (pending c') < length (pending c)"
  by (auto simp: goToNextWith_def split: if_splits option.splits dest: seek_shorter)

lemma goToNextTerminalWithKind_shorter:
  "goToNextTerminalWithKind k c = (True, c') \<Longrightarrow> length (pending c') < length (pending c)"
  unfolding goToNextTerminalWithKind_def by (rule goToNextWith_shorter)

lemma goToNextNonterminalWithKinds_shorter:
  "goToNextNonterminalWithKinds ks c = (True, c')
    \<Longrightarrow> length (pending c') < length (pending c)"
  unfolding goToNextNonterminalWithKinds_def by (rule goToNextWith_shorter)

lemma goToNextNonterminalWithKind_shorter:
  "goToNextNonterminalWithKind k c = (True, c') \<Longrightarrow> length (pending c') < length (pending c)"
  unfolding goToNextNonterminalWithKind_def by (rule goToNextNonterminalWithKinds_shorter)

section \<open>Data of the language server\<close>

record PublicGetter =
  typeName :: string

record Variable =
  name :: string
  content :: string
  varRange :: TextRange
  publicGetter :: "PublicGetter option"

record Namespace =
  nsContractName :: string
  nsPrefix :: string
  nsVariables :: "Variable list"

record TextEdit =
  editRange :: TextRange
  newText :: string

record TextDocument =
  uri :: string
  getText :: string

text \<open>
  The fix datum a diagnostic carries (\<^verbatim>\<open>diagnostic.data\<close>): a replacement string for the
  four mismatch kinds, a \<^verbatim>\<open>NamespaceableContract\<close> for the fifth. The protocol makes
  the field optional.
\<close>

datatype FixData =
    Replacement string
  | NamespaceableContract string "Variable list"

record Diagnostic =
  diagRange :: TextRange
  code :: string
  fixData :: "FixData option"

datatype CodeActionKind = QuickFix

text \<open>
  A code action; \<open>edit\<close> is the workspace edit's \<^verbatim>\<open>changes\<close> table, the edits of each
  document by its uri.
\<close>

record CodeAction =
  title :: string
  kind :: CodeActionKind
  edit :: "(string \<times> TextEdit list) list"
  diagnostics :: "Diagnostic list"

text \<open>
  What a call can throw: a failed \<^verbatim>\<open>assert\<close>, a property read on \<^verbatim>\<open>undefined\<close>, and
  the parser's typed view of a contract node that has no name token.
\<close>

datatype error = AssertionError | TypeError | AstError

text \<open>
  What the fixes take from outside \<^verbatim>\<open>quickfixes.ts\<close> and \<^verbatim>\<open>server.ts\<close>, as
  parameters: the parser (the tree of a source unit's text, and whether a contract's text
  parses without errors), the two printers of \<^verbatim>\<open>namespace.ts\<close> whose output text the
  fixes only pass on, and the prefix the settings give. The parser stands for the
  \<^verbatim>\<open>Language\<close> object of the version that \<^verbatim>\<open>inferSolidityVersion\<close> resolves for the
  document; resolving the version is not part of the model.
\<close>

record Env =
  parseSourceUnit :: "string \<Rightarrow> Node"
  contractIsValid :: "string \<Rightarrow> bool"
  printNamespaceTemplate :: "Namespace \<Rightarrow> string"
  printPublicGetter :: "string \<Rightarrow> string \<Rightarrow> string \<Rightarrow> string \<Rightarrow> string"
  getNamespacePrefix :: "TextDocument \<Rightarrow> string"

text \<open>
  Modelled from the spec: \<^verbatim>\<open>getNamespaceId\<close> of \<^verbatim>\<open>namespace.ts\<close> is not among the
  sources; the specification gives the identifier as
  \<^verbatim>\<open><prefix>.storage.<ContractName>\<close>.
\<close>

definition getNamespaceId :: "string \<Rightarrow> string \<Rightarrow> string" where
  "getNamespaceId prefix contractName = prefix @ ''.storage.'' @ contractName"

text \<open>
  Modelled from the spec: \<^verbatim>\<open>toStorageStructName\<close> of \<^verbatim>\<open>namespace.ts\<close> is not among
  the sources; the specification names the struct \<^verbatim>\<open><ContractName>Storage\<close>.
\<close>

definition toStorageStructName :: "string \<Rightarrow> string" where
  "toStorageStructName contractName = contractName @ ''Storage''"

text \<open>
  Modelled from the spec: \<^verbatim>\<open>slangToVSCodeRange\<close> of \<^verbatim>\<open>helpers/slang.ts\<close> is not among
  the sources. It turns a range of the parser into a range of the protocol for the given
  document; the specification has one kind of range, over one document's text, for
  facts, diagnostics and edits alike, so here the range is passed on as it is.
\<close>

definition slangToVSCodeRange :: "TextDocument \<Rightarrow> TextRange \<Rightarrow> TextRange" where
  "slangToVSCodeRange textDocument r = r"

section \<open>The move-to-namespace quick fix\<close>

text \<open>
  \<^verbatim>\<open>replaceVariables\<close>: every identifier token of the block whose text is the name of
  one of the variables gets an edit that puts \<^verbatim>\<open>$.\<close> in front of it. The loop is
  \<open>replaceVariablesLoop\<close>, with the flag and the edits pushed so far as its state.
\<close>

function replaceVariablesLoop ::
  "Variable list \<Rightarrow> TextDocument \<Rightarrow> Cursor \<Rightarrow> bool \<Rightarrow> TextEdit list
    \<Rightarrow> error + (bool \<times> TextEdit list)" where
  "replaceVariablesLoop variables textDocument identifierCursor needsReplacement edits =
     (case goToNextTerminalWithKind Identifier identifierCursor of
        (False, c') \<Rightarrow> Inr (needsReplacement, edits)
      | (True, c') \<Rightarrow>
          (case node c' of
             NonterminalNode k cs \<Rightarrow> Inl AssertionError
           | TerminalNode k identifierText \<Rightarrow>
               (if list_ex (\<lambda>variable. name variable = identifierText) variables
                then replaceVariablesLoop variables textDocument c' True
                       (edits @ [\<lparr> editRange = slangToVSCodeRange textDocument (textRange c'),
                                   newText = ''$.'' @ identifierText \<rparr>])
                else replaceVariablesLoop variables textDocument c' needsReplacement edits)))"
  by pat_completeness auto
termination
  by (relation "measure (\<lambda>(variables, textDocument, c, needs, edits). length (pending c))")
     (auto dest: goToNextTerminalWithKind_shorter [OF sym])

declare replaceVariablesLoop.simps [simp del]

definition replaceVariables ::
  "Cursor \<Rightarrow> Variable list \<Rightarrow> TextEdit list \<Rightarrow> TextDocument
    \<Rightarrow> error + (bool \<times> TextEdit list)" where
  "replaceVariables blockCursor variables edits textDocument =
     replaceVariablesLoop variables textDocument (spawn blockCursor) False edits"

text \<open>
  \<^verbatim>\<open>addStorageGetter\<close>: unless the block's text already has the declaration of the
  storage pointer, the block's first opening brace is replaced by the brace followed by
  that declaration on a line of its own.
\<close>

definition expectedLine :: "string \<Rightarrow> string" where
  "expectedLine contractName =
     toStorageStructName contractName @ '' storage $ = _get''
       @ toStorageStructName contractName @ ''();''"

definition indent :: string where
  "indent = ''    ''"

definition addStorageGetter ::
  "string \<Rightarrow> Node \<Rightarrow> Cursor \<Rightarrow> TextEdit list \<Rightarrow> TextDocument \<Rightarrow> error + TextEdit list" where
  "addStorageGetter contractName blockNode functionBodyCursor edits textDocument =
     (if \<not> includesStr (unparse blockNode) (expectedLine contractName)
      then (case goToNextTerminalWithKind OpenBrace (spawn functionBodyCursor) of
              (False, openBraceCursor) \<Rightarrow> Inl AssertionError
            | (True, openBraceCursor) \<Rightarrow>
                Inr (edits @ [\<lparr> editRange =
                                   slangToVSCodeRange textDocument (textRange openBraceCursor),
                                 newText = ''{'' @ [CHR 0x0A] @ indent @ indent
                                   @ expectedLine contractName @ [CHR 0x0A] \<rparr>]))
      else Inr edits)"

text \<open>
  \<^verbatim>\<open>editNamespaceVariablesInFunctions\<close>: for every constructor definition and every
  function body of the contract, in document order, the body's block is searched for the
  variables and, if one was found, given the storage pointer.
\<close>

function editFunctionsLoop ::
  "string \<Rightarrow> Variable list \<Rightarrow> TextDocument \<Rightarrow> Cursor \<Rightarrow> TextEdit list
    \<Rightarrow> error + TextEdit list" where
  "editFunctionsLoop contractName variables textDocument cursor edits =
     (case goToNextNonterminalWithKinds [ConstructorDefinition, FunctionBody] cursor of
        (False, c') \<Rightarrow> Inr edits
      | (True, c') \<Rightarrow>
          (let blockCursor = snd (goToNextNonterminalWithKind Block (spawn c'));
               blockNode = node blockCursor
           in case blockNode of
                TerminalNode k t \<Rightarrow> Inl AssertionError
              | NonterminalNode k cs \<Rightarrow>
                  (case replaceVariables blockCursor variables edits textDocument of
                     Inl e \<Rightarrow> Inl e
                   | Inr (needsReplacement, edits1) \<Rightarrow>
                       (if needsReplacement
                        then (case addStorageGetter contractName blockNode blockCursor edits1
                                     textDocument of
                                Inl e \<Rightarrow> Inl e
                              | Inr edits2 \<Rightarrow>
                                  editFunctionsLoop contractName variables textDocument c' edits2)
                        else editFunctionsLoop contractName variables textDocument c' edits1))))"
  by pat_completeness auto
termination
  by (relation
        "measure (\<lambda>(contractName, variables, textDocument, c, edits). length (pending c))")
     (auto dest: goToNextNonterminalWithKinds_shorter [OF sym])

declare editFunctionsLoop.simps [simp del]

definition editNamespaceVariablesInFunctions ::
  "Cursor \<Rightarrow> string \<Rightarrow> Variable list \<Rightarrow> TextDocument \<Rightarrow> TextEdit list
    \<Rightarrow> error + TextEdit list" where
  "editNamespaceVariablesInFunctions contractCursor contractName variables textDocument edits =
     editFunctionsLoop contractName variables textDocument (spawn contractCursor) edits"

text \<open>
  \<^verbatim>\<open>getNamespaceStructEndRange\<close>: the cursor goes to the next single-line NatSpec
  comment of the contract; if that comment has the storage-location tag of the contract's
  namespace, a second cursor goes to the next closing brace of the contract and its range
  is returned. Neither move is checked: a cursor that found nothing stands on the
  contract node itself.
\<close>

definition getNamespaceStructEndRange :: "Cursor \<Rightarrow> string \<Rightarrow> string \<Rightarrow> TextRange option" where
  "getNamespaceStructEndRange contractCursor prefix contractName =
     (let namespaceStructCursor =
            snd (goToNextTerminalWithKind SingleLineNatSpecComment (spawn contractCursor))
      in case node namespaceStructCursor of
           NonterminalNode k cs \<Rightarrow> None
         | TerminalNode k natspecText \<Rightarrow>
             (if includesStr natspecText
                   (''@custom:storage-location erc7201:'' @ getNamespaceId prefix contractName)
              then Some (textRange (snd (goToNextTerminalWithKind CloseBrace
                                           (spawn contractCursor))))
              else None))"

text \<open>
  \<^verbatim>\<open>editNewNamespace\<close>: the first variable is replaced by the printed namespace, the
  others are deleted. (\<^verbatim>\<open>variables[0].range\<close> throws on an empty list.)
\<close>

definition editNewNamespace ::
  "Env \<Rightarrow> string \<Rightarrow> string \<Rightarrow> Variable list \<Rightarrow> TextEdit list \<Rightarrow> error + TextEdit list" where
  "editNewNamespace env prefix contractName variables edits =
     (case variables of
        [] \<Rightarrow> Inl TypeError
      | variable0 # others \<Rightarrow>
          Inr (edits
               @ [\<lparr> editRange = varRange variable0,
                     newText = printNamespaceTemplate env
                       \<lparr> nsContractName = contractName, nsPrefix = prefix,
                         nsVariables = variables \<rparr> \<rparr>]
               @ map (\<lambda>variable. \<lparr> editRange = varRange variable, newText = [] \<rparr>) others))"

text \<open>
  \<^verbatim>\<open>editExistingNamespace\<close>: each variable is replaced by its public getter, or deleted
  when it has none, and an edit on the range of the struct's end puts the variable's
  declaration in front of the closing brace.
\<close>

fun editExistingNamespace ::
  "Env \<Rightarrow> string \<Rightarrow> TextDocument \<Rightarrow> Variable list \<Rightarrow> TextEdit list \<Rightarrow> TextRange
    \<Rightarrow> TextEdit list" where
  "editExistingNamespace env contractName textDocument [] edits structEndRange = edits"
| "editExistingNamespace env contractName textDocument (variable # others) edits structEndRange =
     editExistingNamespace env contractName textDocument others
       (edits
        @ [case publicGetter variable of
             Some getter \<Rightarrow>
               \<lparr> editRange = varRange variable,
                 newText = printPublicGetter env (name variable) (typeName getter)
                             (toStorageStructName contractName) indent \<rparr>
           | None \<Rightarrow> \<lparr> editRange = varRange variable, newText = [] \<rparr>]
        @ [\<lparr> editRange = slangToVSCodeRange textDocument structEndRange,
              newText = indent @ content variable @ [CHR 0x0A] @ indent @ ''}'' \<rparr>])
       structEndRange"

text \<open>
  \<^verbatim>\<open>contractDef.name.text\<close>: the text of the contract's name, the first identifier
  token among the children of the contract node. The parser's typed view throws when the
  token is missing.
\<close>

fun contractDefName :: "Node \<Rightarrow> string option" where
  "contractDefName (TerminalNode k t) = None"
| "contractDefName (NonterminalNode k cs) =
     (case List.find (isTerminalWithKind Identifier) cs of
        Some (TerminalNode k' t) \<Rightarrow> Some t
      | _ \<Rightarrow> None)"

text \<open>
  The loop over the contract definitions of the document: a contract that does not parse
  or has another name is passed over; the first one with the name asked for is scanned
  for its namespace struct and its functions are edited, which ends the loop. The result
  is the range of the struct's end and the edits.
\<close>

function contractsLoop ::
  "Env \<Rightarrow> string \<Rightarrow> string \<Rightarrow> Variable list \<Rightarrow> TextDocument \<Rightarrow> Cursor \<Rightarrow> TextEdit list
    \<Rightarrow> error + (TextRange option \<times> TextEdit list)" where
  "contractsLoop env prefix contractName variables textDocument cursor edits =
     (case goToNextNonterminalWithKind ContractDefinition cursor of
        (False, c') \<Rightarrow> Inr (None, edits)
      | (True, c') \<Rightarrow>
          (let contractCursor = spawn c';
               cursorNode = node contractCursor
           in case cursorNode of
                TerminalNode k t \<Rightarrow> Inl AssertionError
              | NonterminalNode k cs \<Rightarrow>
                  (if \<not> contractIsValid env (unparse cursorNode)
                   then contractsLoop env prefix contractName variables textDocument c' edits
                   else (case contractDefName cursorNode of
                           None \<Rightarrow> Inl AstError
                         | Some contractDefNameText \<Rightarrow>
                             (if contractDefNameText \<noteq> contractName
                              then contractsLoop env prefix contractName variables
                                     textDocument c' edits
                              else (case editNamespaceVariablesInFunctions contractCursor
                                           contractName variables textDocument edits of
                                      Inl e \<Rightarrow> Inl e
                                    | Inr edits1 \<Rightarrow>
                                        Inr (getNamespaceStructEndRange contractCursor
                                               prefix contractName, edits1)))))))"
  by pat_completeness auto
termination
  by (relation "measure (\<lambda>(env, prefix, contractName, variables, textDocument, c, edits).
                  length (pending c))")
     (auto dest: goToNextNonterminalWithKind_shorter [OF sym])

declare contractsLoop.simps [simp del]

text \<open>
  \<^verbatim>\<open>getMoveAllVariablesToNamespaceQuickFix\<close>: \<open>None\<close> is the source's
  \<^verbatim>\<open>undefined\<close>.
\<close>

definition getMoveAllVariablesToNamespaceQuickFix ::
  "Env \<Rightarrow> Diagnostic list \<Rightarrow> string \<Rightarrow> string \<Rightarrow> string \<Rightarrow> Variable list \<Rightarrow> TextDocument
    \<Rightarrow> error + CodeAction option" where
  "getMoveAllVariablesToNamespaceQuickFix env fixesDiagnostics title' prefix contractName
       variables textDocument =
     (case contractsLoop env prefix contractName variables textDocument
             (createTreeCursor (parseSourceUnit env (getText textDocument))) [] of
        Inl e \<Rightarrow> Inl e
      | Inr (namespaceStructEndRange, edits) \<Rightarrow>
          (if length variables = 0 then Inr None
           else (case (case namespaceStructEndRange of
                         None \<Rightarrow> editNewNamespace env prefix contractName variables edits
                       | Some structEndRange \<Rightarrow>
                           Inr (editExistingNamespace env contractName textDocument variables
                                  edits structEndRange)) of
                   Inl e \<Rightarrow> Inl e
                 | Inr edits1 \<Rightarrow>
                     Inr (Some \<lparr> title = title', kind = QuickFix,
                                 edit = [(uri textDocument, edits1)],
                                 diagnostics = fixesDiagnostics \<rparr>))))"

section \<open>Code actions of the server\<close>

text \<open>
  Modelled from the spec: the diagnostic codes are constants of \<^verbatim>\<open>diagnostics.ts\<close>,
  which is not among the sources; the specification lists the five stable string codes.
\<close>

definition CONTRACT_CAN_BE_NAMESPACED :: string where
  "CONTRACT_CAN_BE_NAMESPACED = ''contract-can-be-namespaced''"

definition NAMESPACE_ID_MISMATCH :: string where
  "NAMESPACE_ID_MISMATCH = ''namespace-id-mismatch''"

definition NAMESPACE_ID_MISMATCH_HASH_COMMENT :: string where
  "NAMESPACE_ID_MISMATCH_HASH_COMMENT = ''namespace-id-mismatch-hash-comment''"

definition NAMESPACE_HASH_MISMATCH :: string where
  "NAMESPACE_HASH_MISMATCH = ''namespace-hash-mismatch''"

definition NAMESPACE_STANDALONE_HASH_MISMATCH :: string where
  "NAMESPACE_STANDALONE_HASH_MISMATCH = ''namespace-standalone-hash-mismatch''"

definition getQuickFixReplacement ::
  "Diagnostic list \<Rightarrow> string \<Rightarrow> TextRange \<Rightarrow> string \<Rightarrow> TextDocument \<Rightarrow> CodeAction" where
  "getQuickFixReplacement fixesDiagnostics title' range' replacement textDocument =
     \<lparr> title = title', kind = QuickFix,
       edit = [(uri textDocument, [\<lparr> editRange = range', newText = replacement \<rparr>])],
       diagnostics = fixesDiagnostics \<rparr>"

text \<open>
  \<^verbatim>\<open>String(diagnostic.data.replacement)\<close>: reading a property of a missing datum throws;
  a datum of the other shape has no such property and gives the string of
  \<^verbatim>\<open>undefined\<close>.
\<close>

fun replacementOf :: "FixData option \<Rightarrow> error + string" where
  "replacementOf None = Inl TypeError"
| "replacementOf (Some (Replacement r)) = Inr r"
| "replacementOf (Some (NamespaceableContract n vs)) = Inr ''undefined''"

text \<open>
  The body of the loop of \<^verbatim>\<open>getCodeActions\<close> for one diagnostic: the code actions with
  what it pushes, or what it throws. For the fifth kind a missing datum throws at
  \<^verbatim>\<open>diagnostic.data.name\<close>; with a datum of the other shape the name and the variables
  are \<^verbatim>\<open>undefined\<close>, no contract has that name, and the call throws when it reads the
  length of the variables.
\<close>

definition codeActionStep ::
  "Env \<Rightarrow> Diagnostic list \<Rightarrow> TextDocument \<Rightarrow> Diagnostic \<Rightarrow> CodeAction list
    \<Rightarrow> error + CodeAction list" where
  "codeActionStep env diagnostics' textDocument diagnostic codeActions =
     (if code diagnostic = NAMESPACE_ID_MISMATCH then
        (case replacementOf (fixData diagnostic) of
           Inl e \<Rightarrow> Inl e
         | Inr replacement \<Rightarrow>
             Inr (codeActions @ [getQuickFixReplacement [diagnostic] ''Replace namespace id''
                                   (diagRange diagnostic) replacement textDocument]))
      else if code diagnostic = NAMESPACE_ID_MISMATCH_HASH_COMMENT then
        (case replacementOf (fixData diagnostic) of
           Inl e \<Rightarrow> Inl e
         | Inr replacement \<Rightarrow>
             Inr (codeActions @ [getQuickFixReplacement [diagnostic]
                                   ''Replace namespace comment''
                                   (diagRange diagnostic) replacement textDocument]))
      else if code diagnostic = NAMESPACE_HASH_MISMATCH then
        (case replacementOf (fixData diagnostic) of
           Inl e \<Rightarrow> Inl e
         | Inr replacement \<Rightarrow>
             Inr (codeActions @ [getQuickFixReplacement [diagnostic]
                                   ''Recalculate hash using comment''
                                   (diagRange diagnostic) replacement textDocument]))
      else if code diagnostic = NAMESPACE_STANDALONE_HASH_MISMATCH then
        (case replacementOf (fixData diagnostic) of
           Inl e \<Rightarrow> Inl e
         | Inr replacement \<Rightarrow>
             Inr (codeActions @ [getQuickFixReplacement [diagnostic]
                                   ''Recalculate hash using expected id''
                                   (diagRange diagnostic) replacement textDocument]))
      else if code diagnostic = CONTRACT_CAN_BE_NAMESPACED then
        (case fixData diagnostic of
           None \<Rightarrow> Inl TypeError
         | Some (Replacement r) \<Rightarrow> Inl TypeError
         | Some (NamespaceableContract contractName variables) \<Rightarrow>
             (case getMoveAllVariablesToNamespaceQuickFix env diagnostics'
                     ''Move all variables to namespace'' (getNamespacePrefix env textDocument)
                     contractName variables textDocument of
                Inl e \<Rightarrow> Inl e
              | Inr None \<Rightarrow> Inr codeActions
              | Inr (Some quickfix) \<Rightarrow> Inr (codeActions @ [quickfix])))
      else Inr codeActions)"

text \<open>
  \<^verbatim>\<open>getCodeActions\<close>: the loop over the diagnostics stands inside one
  \<^verbatim>\<open>try\<close>; what was pushed before a throw stays in the list that is returned, and the
  error is logged. The loop returns the list and the error that ended it, if any.
\<close>

fun getCodeActionsLoop ::
  "Env \<Rightarrow> Diagnostic list \<Rightarrow> TextDocument \<Rightarrow> Diagnostic list \<Rightarrow> CodeAction list
    \<Rightarrow> CodeAction list \<times> error option" where
  "getCodeActionsLoop env diagnostics' textDocument [] codeActions = (codeActions, None)"
| "getCodeActionsLoop env diagnostics' textDocument (diagnostic # rest) codeActions =
     (case codeActionStep env diagnostics' textDocument diagnostic codeActions of
        Inl e \<Rightarrow> (codeActions, Some e)
      | Inr codeActions1 \<Rightarrow> getCodeActionsLoop env diagnostics' textDocument rest codeActions1)"

definition getCodeActions :: "Env \<Rightarrow> Diagnostic list \<Rightarrow> TextDocument \<Rightarrow> CodeAction list" where
  "getCodeActions env diagnostics' textDocument =
     fst (getCodeActionsLoop env diagnostics' textDocument diagnostics' [])"

section \<open>The slot hash\<close>

text \<open>
  Modelled from the spec: \<^verbatim>\<open>computeSlotHash\<close> of \<^verbatim>\<open>namespace.ts\<close> is not among the
  sources, and neither is the \<^verbatim>\<open>keccak256\<close> it calls. The hash is modelled from its
  standard: Keccak with rate 1088 and capacity 512, the padding of the original
  submission (the byte 0x01, not SHA-3's 0x06), and 256 bits of output. Everything is a
  list of bits: a byte is its eight bits from the least significant one, a lane of the
  state is 64 bits from the least significant one, the state is its 25 lanes, lane
  \<open>x + 5 * y\<close> at position (x, y).
\<close>

type_synonym lane = "bool list"

text \<open>Bitwise operations on lanes; \<open>rotl n\<close> rotates towards the most significant bit.\<close>

fun xorLane :: "lane \<Rightarrow> lane \<Rightarrow> lane" where
  "xorLane (a # as) (b # bs) = (a \<noteq> b) # xorLane as bs"
| "xorLane as bs = []"

fun chiLane :: "lane \<Rightarrow> lane \<Rightarrow> lane \<Rightarrow> lane" where
  "chiLane (a # as) (b # bs) (c # cs) = (a \<noteq> (\<not> b \<and> c)) # chiLane as bs cs"
| "chiLane as bs cs = []"

definition rotl :: "nat \<Rightarrow> lane \<Rightarrow> lane" where
  "rotl n w = drop (64 - n) w @ take (64 - n) w"

text \<open>
  The step theta: every lane is xored with the parity of the column before it and the
  rotated parity of the column after it.
\<close>

fun xorLanes :: "lane list \<Rightarrow> lane list \<Rightarrow> lane list" where
  "xorLanes (a # as) (b # bs) = xorLane a b # xorLanes as bs"
| "xorLanes as bs = []"

fun planes :: "lane list \<Rightarrow> lane list list" where
  "planes (a0 # a1 # a2 # a3 # a4 # rest) = [a0, a1, a2, a3, a4] # planes rest"
| "planes rest = []"

fun columnParity :: "lane list list \<Rightarrow> lane list" where
  "columnParity [] = []"
| "columnParity [p] = p"
| "columnParity (p # ps) = xorLanes p (columnParity ps)"

fun thetaEffect :: "lane list \<Rightarrow> lane list" where
  "thetaEffect [c0, c1, c2, c3, c4] =
     [xorLane c4 (rotl 1 c1), xorLane c0 (rotl 1 c2), xorLane c1 (rotl 1 c3),
      xorLane c2 (rotl 1 c4), xorLane c3 (rotl 1 c0)]"
| "thetaEffect cs = []"

definition thetaApply :: "lane list \<Rightarrow> lane list list \<Rightarrow> lane list" where
  "thetaApply d ps = concat (map (xorLanes d) ps)"

definition theta :: "lane list \<Rightarrow> lane list" where
  "theta a = thetaApply (thetaEffect (columnParity (planes a))) (planes a)"

text \<open>
  The steps rho and pi: the lane at (x, y) is rotated by its fixed offset and moved to
  (y, 2x + 3y).
\<close>

fun rhoPi :: "lane list \<Rightarrow> lane list" where
  "rhoPi [a0, a1, a2, a3, a4, a5, a6, a7, a8, a9, a10, a11, a12, a13, a14, a15, a16, a17, a18, a19, a20, a21, a22, a23, a24] =
     [rotl 0 a0, rotl 44 a6, rotl 43 a12, rotl 21 a18, rotl 14 a24,
      rotl 28 a3, rotl 20 a9, rotl 3 a10, rotl 45 a16, rotl 61 a22,
      rotl 1 a1, rotl 6 a7, rotl 25 a13, rotl 8 a19, rotl 18 a20,
      rotl 27 a4, rotl 36 a5, rotl 10 a11, rotl 15 a17, rotl 56 a23,
      rotl 62 a2, rotl 55 a8, rotl 39 a14, rotl 41 a15, rotl 2 a21]"
| "rhoPi a = []"

text \<open>The step chi, along each plane, and the step iota, on the first lane.\<close>

fun chiPlane :: "lane list \<Rightarrow> lane list" where
  "chiPlane [b0, b1, b2, b3, b4] =
     [chiLane b0 b1 b2, chiLane b1 b2 b3, chiLane b2 b3 b4, chiLane b3 b4 b0, chiLane b4 b0 b1]"
| "chiPlane bs = []"

definition chi :: "lane list \<Rightarrow> lane list" where
  "chi a = concat (map chiPlane (planes a))"

fun iota :: "lane \<Rightarrow> lane list \<Rightarrow> lane list" where
  "iota rc (a # as) = xorLane a rc # as"
| "iota rc [] = []"

definition keccakRound :: "lane \<Rightarrow> lane list \<Rightarrow> lane list" where
  "keccakRound rc a = iota rc (chi (rhoPi (theta a)))"

fun rounds :: "lane list \<Rightarrow> lane list \<Rightarrow> lane list" where
  "rounds [] a = a"
| "rounds (rc # rcs) a = rounds rcs (keccakRound rc a)"

text \<open>The round constants, written as in the standard, sixteen hexadecimal digits each.\<close>

definition hexTable :: "(char \<times> bool list) list" where
  "hexTable =
     [(CHR ''0'', [False, False, False, False]), (CHR ''1'', [True, False, False, False]),
      (CHR ''2'', [False, True, False, False]), (CHR ''3'', [True, True, False, False]),
      (CHR ''4'', [False, False, True, False]), (CHR ''5'', [True, False, True, False]),
      (CHR ''6'', [False, True, True, False]), (CHR ''7'', [True, True, True, False]),
      (CHR ''8'', [False, False, False, True]), (CHR ''9'', [True, False, False, True]),
      (CHR ''a'', [False, True, False, True]), (CHR ''b'', [True, True, False, True]),
      (CHR ''c'', [False, False, True, True]), (CHR ''d'', [True, False, True, True]),
      (CHR ''e'', [False, True, True, True]), (CHR ''f'', [True, True, True, True])]"

definition bitsOfHexDigit :: "char \<Rightarrow> bool list" where
  "bitsOfHexDigit c = (case map_of hexTable c of Some bs \<Rightarrow> bs | None \<Rightarrow> [])"

definition laneOfHex :: "string \<Rightarrow> lane" where
  "laneOfHex s = concat (map bitsOfHexDigit (rev s))"

definition roundConstants :: "string list" where
  "roundConstants =
     [''0000000000000001'', ''0000000000008082'', ''800000000000808a'', ''8000000080008000'',
      ''000000000000808b'', ''0000000080000001'', ''8000000080008081'', ''8000000000008009'',
      ''000000000000008a'', ''0000000000000088'', ''0000000080008009'', ''000000008000000a'',
      ''000000008000808b'', ''800000000000008b'', ''8000000000008089'', ''8000000000008003'',
      ''8000000000008002'', ''8000000000000080'', ''000000000000800a'', ''800000008000000a'',
      ''8000000080008081'', ''8000000000008080'', ''0000000080000001'', ''8000000080008008'']"

definition keccakF :: "lane list \<Rightarrow> lane list" where
  "keccakF a = rounds (map laneOfHex roundConstants) a"

text \<open>
  The sponge: the message is padded to a multiple of 1088 bits (a one, zeros, a one), each
  block is xored into the first 17 lanes and the permutation is applied; the output is
  the first four lanes.
\<close>

function chunksOf :: "nat \<Rightarrow> 'a list \<Rightarrow> 'a list list" where
  "chunksOf n xs = (if n = 0 \<or> xs = [] then [] else take n xs # chunksOf n (drop n xs))"
  by pat_completeness auto
termination
  by (relation "measure (\<lambda>(n, xs). length xs)") auto

declare chunksOf.simps [simp del]

definition pad :: "bool list \<Rightarrow> bool list" where
  "pad m = m @ [True] @ replicate ((1088 - (length m + 2) mod 1088) mod 1088) False @ [True]"

definition absorbBlock :: "bool list \<Rightarrow> lane list \<Rightarrow> lane list" where
  "absorbBlock block a =
     keccakF (xorLanes a (chunksOf 64 block @ replicate 8 (replicate 64 False)))"

definition keccak256 :: "bool list \<Rightarrow> bool list" where
  "keccak256 m =
     concat (take 4 (fold absorbBlock (chunksOf 1088 (pad m))
                       (replicate 25 (replicate 64 False))))"

text \<open>
  The bytes of a string, as bits; a 32-byte value read as a number with its first byte
  the most significant (the bits of that number, least significant first, are the bytes
  in reverse order); subtracting one; clearing the low byte; and sixty-four lowercase
  hexadecimal digits after \<^verbatim>\<open>0x\<close>.
\<close>

fun bitsOfChar :: "char \<Rightarrow> bool list" where
  "bitsOfChar (Char b0 b1 b2 b3 b4 b5 b6 b7) = [b0, b1, b2, b3, b4, b5, b6, b7]"

definition utf8Bits :: "string \<Rightarrow> bool list" where
  "utf8Bits s = concat (map bitsOfChar s)"

definition reverseBytes :: "bool list \<Rightarrow> bool list" where
  "reverseBytes bs = concat (rev (chunksOf 8 bs))"

fun decrement :: "bool list \<Rightarrow> bool list" where
  "decrement [] = []"
| "decrement (True # bs) = False # bs"
| "decrement (False # bs) = True # decrement bs"

definition clearLowByte :: "bool list \<Rightarrow> bool list" where
  "clearLowByte bs = replicate 8 False @ drop 8 bs"

fun nibbleValue :: "bool list \<Rightarrow> nat" where
  "nibbleValue [] = 0"
| "nibbleValue (b # bs) = (if b then 1 else 0) + 2 * nibbleValue bs"

definition hexDigit :: "bool list \<Rightarrow> char" where
  "hexDigit bs = ''0123456789abcdef'' ! nibbleValue (take 4 bs)"

fun hexDigits :: "nat \<Rightarrow> bool list \<Rightarrow> string" where
  "hexDigits 0 bs = []"
| "hexDigits (Suc n) bs = hexDigits n (drop 4 bs) @ [hexDigit bs]"

definition toHex :: "bool list \<Rightarrow> string" where
  "toHex bs = ''0x'' @ hexDigits 64 bs"

text \<open>
  The digest of an identifier as the bits of the number it stands for, least significant
  bit first.
\<close>

definition idHash :: "string \<Rightarrow> bool list" where
  "idHash id' = reverseBytes (keccak256 (utf8Bits id'))"

text \<open>
  Modelled from the spec: \<^verbatim>\<open>computeSlotHash\<close> of \<^verbatim>\<open>namespace.ts\<close> is not among the
  sources. The specification asks for the formula of ERC-7201 exactly, and for the
  vectors the standard publishes, bit for bit. The formula of the standard is
  \<^verbatim>\<open>keccak256(abi.encode(uint256(keccak256(id)) - 1)) & ~bytes32(uint256(0xff))\<close>: with
  \<open>H\<close> the digest of the identifier read as a number, the 32 bytes of \<open>H - 1\<close>, most
  significant first, are hashed again, and the low byte of that digest is cleared. The
  result is rendered as \<^verbatim>\<open>0x\<close> and 64 lowercase hexadecimal digits.
\<close>

definition computeSlotHash :: "string \<Rightarrow> string" where
  "computeSlotHash id' =
     toHex (clearLowByte (reverseBytes (keccak256 (reverseBytes (decrement (idHash id'))))))"

text \<open>
  The formula in the words of the specification, which leave the second hash out:
  \<open>H = keccak256(utf8-bytes(id))\<close>, \<open>slot = (H - 1) AND NOT 0xff\<close>.
\<close>

definition abbreviatedSlot :: "string \<Rightarrow> string" where
  "abbreviatedSlot id' = toHex (clearLowByte (decrement (idHash id')))"

text \<open>
  The number a list of bits stands for, least significant bit first, and the same as an
  unsigned integer of 256 bits.
\<close>

fun numberOf :: "bool list \<Rightarrow> nat" where
  "numberOf [] = 0"
| "numberOf (b # bs) = (if b then 1 else 0) + 2 * numberOf bs"

definition uint256 :: "bool list \<Rightarrow> 256 word" where
  "uint256 bs = of_nat (numberOf bs)"

text \<open>
  The formula of the standard on unsigned integers of 256 bits: \<open>keccak256Uint\<close> is
  \<^verbatim>\<open>uint256(keccak256(m))\<close>, the digest read with its first byte the most significant;
  \<open>abiEncode\<close> is \<^verbatim>\<open>abi.encode\<close> of one such integer, its 32 bytes with the most
  significant first (each byte as its bits from the least significant one).
\<close>

definition keccak256Uint :: "bool list \<Rightarrow> 256 word" where
  "keccak256Uint m = uint256 (reverseBytes (keccak256 m))"

definition abiEncode :: "256 word \<Rightarrow> bool list" where
  "abiEncode w = reverseBytes (map (bit w) [0..<256])"

definition erc7201 :: "string \<Rightarrow> 256 word" where
  "erc7201 id' = keccak256Uint (abiEncode (keccak256Uint (utf8Bits id') - 1)) AND NOT 0xff"

text \<open>The number a string of hexadecimal digits stands for.\<close>

definition hexDigitValue :: "char \<Rightarrow> nat" where
  "hexDigitValue c = numberOf (bitsOfHexDigit c)"

definition hexNumber :: "string \<Rightarrow> nat" where
  "hexNumber s = foldl (\<lambda>n c. 16 * n + hexDigitValue c) 0 s"

text \<open>A list of lanes of 64 bits each.\<close>

definition wellFormed :: "lane list \<Rightarrow> bool" where
  "wellFormed a = list_all (\<lambda>l. length l = 64) a"

section \<open>The printed namespace\<close>

text \<open>
  Modelled from the spec: \<^verbatim>\<open>formatIdComment\<close>, \<^verbatim>\<open>formatHashComment\<close> and
  \<^verbatim>\<open>printNamespaceTemplate\<close> of \<^verbatim>\<open>namespace.ts\<close> are not among the sources. The
  specification names the parts of the block that is printed for a new namespace: the id
  comment, a NatSpec storage-location tag with the identifier; the hash comment, a
  derivation comment with the identifier and the hash; the struct
  \<^verbatim>\<open><ContractName>Storage\<close> with one field per variable, the text of its declaration
  as it is; and an internal accessor function that returns a storage pointer at the
  slot. The tag is the one \<^verbatim>\<open>getNamespaceStructEndRange\<close> looks for and the accessor is
  the one the line of \<^verbatim>\<open>addStorageGetter\<close> calls. The specification does not give the
  layout of the lines; the one here follows the indentation \<^verbatim>\<open>editExistingNamespace\<close>
  uses for a field and the closing brace of the struct. The printer is
  \<open>namespaceTemplate\<close> here, as \<open>printNamespaceTemplate\<close> is the name of the parameter
  it is passed in.
\<close>

definition formatIdComment :: "string \<Rightarrow> string" where
  "formatIdComment id' = ''/// @custom:storage-location erc7201:'' @ id'"

definition formatHashComment :: "string \<Rightarrow> string \<Rightarrow> string" where
  "formatHashComment id' hash =
     ''// keccak256(abi.encode(uint256(keccak256('' @ [CHR 0x22] @ id' @ [CHR 0x22]
     @ '')) - 1)) & ~bytes32(uint256(0xff)) = '' @ hash"

definition structField :: "Variable \<Rightarrow> string" where
  "structField variable = indent @ indent @ content variable @ [CHR 0x0A]"

definition printStruct :: "string \<Rightarrow> Variable list \<Rightarrow> string" where
  "printStruct structName variables =
     ''struct '' @ structName @ '' {'' @ [CHR 0x0A]
     @ concat (map structField variables)
     @ indent @ ''}''"

definition printAccessor :: "string \<Rightarrow> string \<Rightarrow> string" where
  "printAccessor structName hash =
     ''function _get'' @ structName @ ''() internal pure returns ('' @ structName
     @ '' storage $) {'' @ [CHR 0x0A]
     @ indent @ indent @ ''assembly {'' @ [CHR 0x0A]
     @ indent @ indent @ indent @ ''$.slot := '' @ hash @ [CHR 0x0A]
     @ indent @ indent @ ''}'' @ [CHR 0x0A]
     @ indent @ ''}''"

definition namespaceTemplate :: "Namespace \<Rightarrow> string" where
  "namespaceTemplate ns =
     formatIdComment (getNamespaceId (nsPrefix ns) (nsContractName ns)) @ [CHR 0x0A]
     @ indent @ printStruct (toStorageStructName (nsContractName ns)) (nsVariables ns)
     @ [CHR 0x0A, CHR 0x0A]
     @ indent @ formatHashComment (getNamespaceId (nsPrefix ns) (nsContractName ns))
                  (computeSlotHash (getNamespaceId (nsPrefix ns) (nsContractName ns)))
     @ [CHR 0x0A]
     @ indent @ printAccessor (toStorageStructName (nsContractName ns))
                  (computeSlotHash (getNamespaceId (nsPrefix ns) (nsContractName ns)))"

section \<open>What the loops compute\<close>

text \<open>
  The functions above follow the source statement by statement. The definitions of this
  section say the same in terms of the tree alone: which nodes the loops visit and which
  edits come out. The lemmas after them prove that the two agree.
\<close>

text \<open>
  A position of the tree is a node with its range. An identifier token matches when its
  text is the name of one of the variables; its rewrite puts \<^verbatim>\<open>$.\<close> in front of the
  text. The rewrites of a block are those of the matching tokens among its descendants,
  in document order.
\<close>

definition identifierMatches :: "Variable list \<Rightarrow> Node \<times> TextRange \<Rightarrow> bool" where
  "identifierMatches variables x =
     (isTerminalWithKind Identifier (fst x) \<and> unparse (fst x) \<in> set (map name variables))"

definition rewriteEdit :: "TextDocument \<Rightarrow> Node \<times> TextRange \<Rightarrow> TextEdit" where
  "rewriteEdit textDocument x =
     \<lparr> editRange = slangToVSCodeRange textDocument (snd x), newText = ''$.'' @ unparse (fst x) \<rparr>"

definition identifierEdits :: "Variable list \<Rightarrow> TextDocument \<Rightarrow> Node \<times> TextRange \<Rightarrow> TextEdit list" where
  "identifierEdits variables textDocument b =
     map (rewriteEdit textDocument)
       (filter (identifierMatches variables) (descendants (fst (snd b)) (fst b)))"

text \<open>
  The bodies of a contract: for every constructor definition and every function body
  among its descendants, the first block below it, or the node itself when it has no
  block (a function without a body).
\<close>

definition bodyBlock :: "Node \<times> TextRange \<Rightarrow> Node \<times> TextRange" where
  "bodyBlock x =
     (case List.find (\<lambda>y. isNonterminalWithKinds [Block] (fst y))
             (descendants (fst (snd x)) (fst x)) of
        None \<Rightarrow> x
      | Some b \<Rightarrow> b)"

definition isBody :: "Node \<times> TextRange \<Rightarrow> bool" where
  "isBody x = isNonterminalWithKinds [ConstructorDefinition, FunctionBody] (fst x)"

definition bodies :: "Node \<times> TextRange \<Rightarrow> (Node \<times> TextRange) list" where
  "bodies contract =
     map bodyBlock
       (filter isBody (descendants (fst (snd contract)) (fst contract)))"

text \<open>
  Whether the text of a body already has the declaration of the storage pointer; the
  edit that declares it at the range of an opening brace; and the range of the first
  opening brace below a body, if there is one.
\<close>

definition hasStoragePointer :: "string \<Rightarrow> Node \<times> TextRange \<Rightarrow> bool" where
  "hasStoragePointer contractName b = includesStr (unparse (fst b)) (expectedLine contractName)"

definition storagePointerEdit :: "string \<Rightarrow> TextDocument \<Rightarrow> TextRange \<Rightarrow> TextEdit" where
  "storagePointerEdit contractName textDocument r =
     \<lparr> editRange = slangToVSCodeRange textDocument r,
       newText = ''{'' @ [CHR 0x0A] @ indent @ indent @ expectedLine contractName @ [CHR 0x0A] \<rparr>"

definition openBraceOf :: "Node \<times> TextRange \<Rightarrow> TextRange option" where
  "openBraceOf b =
     map_option snd
       (List.find (\<lambda>y. isTerminalWithKind OpenBrace (fst y)) (descendants (fst (snd b)) (fst b)))"

text \<open>
  A body references the variables when one of its identifier tokens matches; it needs
  the storage pointer when it references them and does not have the declaration yet.
  The edits of a body are its rewrites, followed by the declaration when it needs one.
\<close>

definition referencesVariables :: "Variable list \<Rightarrow> Node \<times> TextRange \<Rightarrow> bool" where
  "referencesVariables variables b =
     (filter (identifierMatches variables) (descendants (fst (snd b)) (fst b)) \<noteq> [])"

definition needsStoragePointer :: "string \<Rightarrow> Variable list \<Rightarrow> Node \<times> TextRange \<Rightarrow> bool" where
  "needsStoragePointer contractName variables b =
     (referencesVariables variables b \<and> \<not> hasStoragePointer contractName b)"

definition bodyEdits ::
  "string \<Rightarrow> Variable list \<Rightarrow> TextDocument \<Rightarrow> Node \<times> TextRange \<Rightarrow> TextEdit list" where
  "bodyEdits contractName variables textDocument b =
     identifierEdits variables textDocument b
     @ (if needsStoragePointer contractName variables b
        then (case openBraceOf b of
                None \<Rightarrow> []
              | Some r \<Rightarrow> [storagePointerEdit contractName textDocument r])
        else [])"

text \<open>
  Every body that needs the storage pointer has an opening brace. Every block the parser
  produces has one; in a tree without it the \<^verbatim>\<open>assert\<close> of \<^verbatim>\<open>addStorageGetter\<close>
  fails.
\<close>

definition bracesPresent :: "string \<Rightarrow> Variable list \<Rightarrow> (Node \<times> TextRange) list \<Rightarrow> bool" where
  "bracesPresent contractName variables bs =
     list_all (\<lambda>b. \<not> needsStoragePointer contractName variables b \<or> openBraceOf b \<noteq> None) bs"

text \<open>
  The end of the namespace struct as the fix finds it: the first single-line NatSpec
  comment below the contract has to contain the storage-location tag of the namespace,
  and the range is that of the first closing brace below the contract (that of the
  contract itself in a tree without a closing brace).
\<close>

definition storageLocationTag :: "string \<Rightarrow> string \<Rightarrow> string" where
  "storageLocationTag prefix contractName =
     ''@custom:storage-location erc7201:'' @ getNamespaceId prefix contractName"

definition firstTerminal :: "TerminalKind \<Rightarrow> Node \<times> TextRange \<Rightarrow> (Node \<times> TextRange) option" where
  "firstTerminal k x =
     List.find (\<lambda>y. isTerminalWithKind k (fst y)) (descendants (fst (snd x)) (fst x))"

definition namespaceStructEnd :: "string \<Rightarrow> string \<Rightarrow> Node \<times> TextRange \<Rightarrow> TextRange option" where
  "namespaceStructEnd prefix contractName contract =
     (case firstTerminal SingleLineNatSpecComment contract of
        None \<Rightarrow> None
      | Some comment \<Rightarrow>
          (if includesStr (unparse (fst comment)) (storageLocationTag prefix contractName)
           then (case firstTerminal CloseBrace contract of
                   None \<Rightarrow> Some (snd contract)
                 | Some brace \<Rightarrow> Some (snd brace))
           else None))"

text \<open>
  The contract definitions of a document in document order; a contract matches a name when
  its text parses and that is its name. \<open>contractsNamed\<close> says that every contract
  that parses has a name token, as every contract the parser accepts has.
\<close>

definition isContract :: "Node \<times> TextRange \<Rightarrow> bool" where
  "isContract x = isNonterminalWithKinds [ContractDefinition] (fst x)"

definition contracts :: "Env \<Rightarrow> TextDocument \<Rightarrow> (Node \<times> TextRange) list" where
  "contracts env textDocument =
     filter isContract (descendants 0 (parseSourceUnit env (getText textDocument)))"

definition matchesContract :: "Env \<Rightarrow> string \<Rightarrow> Node \<times> TextRange \<Rightarrow> bool" where
  "matchesContract env contractName x =
     (contractIsValid env (unparse (fst x)) \<and> contractDefName (fst x) = Some contractName)"

definition contractsNamed :: "Env \<Rightarrow> (Node \<times> TextRange) list \<Rightarrow> bool" where
  "contractsNamed env xs =
     list_all (\<lambda>x. \<not> contractIsValid env (unparse (fst x)) \<or> contractDefName (fst x) \<noteq> None) xs"

text \<open>
  The edits on the variables: for a new namespace the first variable is replaced by the
  printed namespace and the others are deleted; for an existing namespace every variable
  is replaced by its getter or deleted and its declaration is put at the end of the
  struct.
\<close>

definition newNamespaceEdits :: "Env \<Rightarrow> string \<Rightarrow> string \<Rightarrow> Variable list \<Rightarrow> TextEdit list" where
  "newNamespaceEdits env prefix contractName variables =
     (case variables of
        [] \<Rightarrow> []
      | variable0 # others \<Rightarrow>
          \<lparr> editRange = varRange variable0,
            newText = printNamespaceTemplate env
              \<lparr> nsContractName = contractName, nsPrefix = prefix, nsVariables = variables \<rparr> \<rparr>
          # map (\<lambda>variable. \<lparr> editRange = varRange variable, newText = [] \<rparr>) others)"

definition variableEdits ::
  "Env \<Rightarrow> string \<Rightarrow> TextDocument \<Rightarrow> TextRange \<Rightarrow> Variable \<Rightarrow> TextEdit list" where
  "variableEdits env contractName textDocument structEndRange variable =
     [case publicGetter variable of
        Some getter \<Rightarrow>
          \<lparr> editRange = varRange variable,
            newText = printPublicGetter env (name variable) (typeName getter)
                        (toStorageStructName contractName) indent \<rparr>
      | None \<Rightarrow> \<lparr> editRange = varRange variable, newText = [] \<rparr>,
      \<lparr> editRange = slangToVSCodeRange textDocument structEndRange,
        newText = indent @ content variable @ [CHR 0x0A] @ indent @ ''}'' \<rparr>]"

definition namespaceEdits ::
  "Env \<Rightarrow> string \<Rightarrow> string \<Rightarrow> TextDocument \<Rightarrow> Variable list \<Rightarrow> TextRange option
    \<Rightarrow> TextEdit list" where
  "namespaceEdits env prefix contractName textDocument variables structEnd =
     (case structEnd of
        None \<Rightarrow> newNamespaceEdits env prefix contractName variables
      | Some structEndRange \<Rightarrow>
          concat (map (variableEdits env contractName textDocument structEndRange) variables))"

subsection \<open>Notions the properties use\<close>

text \<open>The codes of the four mismatch kinds.\<close>

definition mismatchCodes :: "string list" where
  "mismatchCodes =
     [NAMESPACE_ID_MISMATCH, NAMESPACE_ID_MISMATCH_HASH_COMMENT, NAMESPACE_HASH_MISMATCH,
      NAMESPACE_STANDALONE_HASH_MISMATCH]"

text \<open>Whether the document has a contract that parses and has the name asked for.\<close>

definition nameOccurs :: "Env \<Rightarrow> string \<Rightarrow> TextDocument \<Rightarrow> bool" where
  "nameOccurs env contractName textDocument =
     list_ex (matchesContract env contractName) (contracts env textDocument)"

text \<open>
  The text of the edit that declares the storage pointer, and the number of such edits in
  a list.
\<close>

definition storagePointerText :: "string \<Rightarrow> string" where
  "storagePointerText contractName =
     ''{'' @ [CHR 0x0A] @ indent @ indent @ expectedLine contractName @ [CHR 0x0A]"

definition isStoragePointerEdit :: "string \<Rightarrow> TextEdit \<Rightarrow> bool" where
  "isStoragePointerEdit contractName e = (newText e = storagePointerText contractName)"

definition storagePointerCount :: "string \<Rightarrow> TextEdit list \<Rightarrow> nat" where
  "storagePointerCount contractName es = length (filter (isStoragePointerEdit contractName) es)"

text \<open>The number of bodies of a contract with an identifier named like a variable.\<close>

definition referencingBodyCount :: "Variable list \<Rightarrow> Node \<times> TextRange \<Rightarrow> nat" where
  "referencingBodyCount variables contract =
     length (filter (referencesVariables variables) (bodies contract))"

text \<open>The contract the loop of the fix stops at: the first that parses and has the name.\<close>

definition targetContract :: "Env \<Rightarrow> string \<Rightarrow> TextDocument \<Rightarrow> (Node \<times> TextRange) option" where
  "targetContract env contractName textDocument =
     List.find (matchesContract env contractName) (contracts env textDocument)"

text \<open>
  Two ranges overlap when they share a position of the text; a list of ranges is free of
  overlaps when no two of its members do.
\<close>

definition overlap :: "TextRange \<Rightarrow> TextRange \<Rightarrow> bool" where
  "overlap a b = (fst a < snd b \<and> fst b < snd a)"

fun nonOverlapping :: "TextRange list \<Rightarrow> bool" where
  "nonOverlapping [] = True"
| "nonOverlapping (r # rs) = (\<not> list_ex (overlap r) rs \<and> nonOverlapping rs)"

section \<open>Example documents\<close>

text \<open>
  Small documents with the trees the parser gives for them, used to run the fixes on
  concrete input. Tokens the fixes never look for keep their kind by name; white space is
  a token of the tree like any other. The two printers of the example environment are
  stand-ins for those of \<^verbatim>\<open>namespace.ts\<close>.
\<close>

text \<open>A token and a rule whose kinds the fixes never ask for, and a blank.\<close>

definition tok :: "string \<Rightarrow> string \<Rightarrow> Node" where
  "tok k t = TerminalNode (OtherTerminal k) t"

definition ws :: Node where
  "ws = TerminalNode (OtherTerminal ''Whitespace'') '' ''"

definition rule :: "string \<Rightarrow> Node list \<Rightarrow> Node" where
  "rule k cs = NonterminalNode (OtherNonterminal k) cs"

text \<open>The pieces of the example contracts: members, statements, a function, the struct.\<close>

definition uint256Type :: Node where
  "uint256Type = rule ''TypeName'' [rule ''ElementaryType'' [ws, tok ''UintKeyword'' ''uint256'']]"

definition stateVariable :: "string \<Rightarrow> Node" where
  "stateVariable n =
     rule ''ContractMember''
       [rule ''StateVariableDefinition''
          [uint256Type, ws, TerminalNode Identifier n, tok ''Semicolon'' '';'']]"

definition incrementStatement :: "string \<Rightarrow> Node" where
  "incrementStatement n =
     rule ''Statement''
       [rule ''ExpressionStatement''
          [rule ''Expression''
             [rule ''AssignmentExpression''
                [rule ''Expression'' [ws, TerminalNode Identifier n],
                 ws, tok ''PlusEqual'' ''+='',
                 rule ''Expression''
                   [rule ''DecimalNumberExpression'' [ws, tok ''DecimalLiteral'' ''1'']]]],
           tok ''Semicolon'' '';'']]"

definition storagePointerStatement :: Node where
  "storagePointerStatement =
     rule ''Statement''
       [rule ''VariableDeclarationStatement''
          [rule ''VariableDeclarationType''
             [rule ''TypeName''
                [rule ''IdentifierPath'' [ws, TerminalNode Identifier ''FooStorage'']]],
           rule ''StorageLocation'' [ws, tok ''StorageKeyword'' ''storage''],
           ws, TerminalNode Identifier ''$'',
           rule ''VariableDeclarationValue''
             [ws, tok ''Equal'' ''='',
              rule ''Expression''
                [rule ''FunctionCallExpression''
                   [rule ''Expression'' [ws, TerminalNode Identifier ''_getFooStorage''],
                    rule ''ArgumentsDeclaration''
                      [rule ''PositionalArgumentsDeclaration''
                         [tok ''OpenParen'' ''('', tok ''CloseParen'' '')'']]]]],
           tok ''Semicolon'' '';'']]"

definition functionDefinition :: "string \<Rightarrow> Node list \<Rightarrow> Node" where
  "functionDefinition n statements =
     rule ''ContractMember''
       [rule ''FunctionDefinition''
          [ws, tok ''FunctionKeyword'' ''function'',
           rule ''FunctionName'' [ws, TerminalNode Identifier n],
           rule ''ParametersDeclaration'' [tok ''OpenParen'' ''('', tok ''CloseParen'' '')''],
           rule ''FunctionAttributes''
             [rule ''FunctionAttribute'' [ws, tok ''PublicKeyword'' ''public'']],
           NonterminalNode FunctionBody
             [NonterminalNode Block
                [ws, TerminalNode OpenBrace ''{'',
                 rule ''Statements'' statements,
                 ws, TerminalNode CloseBrace ''}'']]]]"

text \<open>
  A struct \<^verbatim>\<open>FooStorage\<close> with one field, annotated with the storage location of the
  namespace \<^verbatim>\<open>erc7201.storage.Foo\<close>.
\<close>

definition namespaceStruct :: Node where
  "namespaceStruct =
     rule ''ContractMember''
       [rule ''StructDefinition''
          [ws, TerminalNode SingleLineNatSpecComment
                 ''/// @custom:storage-location erc7201:erc7201.storage.Foo'',
           tok ''EndOfLine'' [CHR 0x0A],
           ws, tok ''StructKeyword'' ''struct'',
           ws, TerminalNode Identifier ''FooStorage'',
           ws, TerminalNode OpenBrace ''{'',
           rule ''StructMembers''
             [rule ''StructMember''
                [uint256Type, ws, TerminalNode Identifier ''a'', tok ''Semicolon'' '';'']],
           ws, TerminalNode CloseBrace ''}'']]"

definition contractDefinition :: "string \<Rightarrow> Node list \<Rightarrow> Node" where
  "contractDefinition n members =
     NonterminalNode ContractDefinition
       [tok ''ContractKeyword'' ''contract'',
        ws, TerminalNode Identifier n,
        ws, TerminalNode OpenBrace ''{'',
        rule ''ContractMembers'' members,
        ws, TerminalNode CloseBrace ''}'']"

definition sourceUnit :: "Node \<Rightarrow> Node" where
  "sourceUnit contract =
     NonterminalNode SourceUnit
       [rule ''SourceUnitMembers'' [rule ''SourceUnitMember'' [contract]]]"

text \<open>
  \<^verbatim>\<open>contract Foo { uint256 x; function bump() public { x += 1; } }\<close>
\<close>

definition counterTree :: Node where
  "counterTree =
     sourceUnit (contractDefinition ''Foo''
       [stateVariable ''x'', functionDefinition ''bump'' [incrementStatement ''x'']])"

text \<open>
  The same contract with a body that declares the storage pointer already:
  \<^verbatim>\<open>{ FooStorage storage $ = _getFooStorage(); x += 1; }\<close>
\<close>

definition migratedBodyTree :: Node where
  "migratedBodyTree =
     sourceUnit (contractDefinition ''Foo''
       [stateVariable ''x'',
        functionDefinition ''bump'' [storagePointerStatement, incrementStatement ''x'']])"

text \<open>A contract with the annotated struct and the variables \<^verbatim>\<open>x\<close> and \<^verbatim>\<open>y\<close>.\<close>

definition existingStructTree :: Node where
  "existingStructTree =
     sourceUnit (contractDefinition ''Foo''
       [namespaceStruct, stateVariable ''x'', stateVariable ''y''])"

text \<open>The first contract under another name, \<^verbatim>\<open>Bar\<close>.\<close>

definition renamedTree :: Node where
  "renamedTree =
     sourceUnit (contractDefinition ''Bar''
       [stateVariable ''x'', functionDefinition ''bump'' [incrementStatement ''x'']])"

text \<open>A contract with an empty function in front of the annotated struct.\<close>

definition functionFirstTree :: Node where
  "functionFirstTree =
     sourceUnit (contractDefinition ''Foo''
       [functionDefinition ''f'' [], namespaceStruct])"

text \<open>
  A contract with the variables \<^verbatim>\<open>x\<close> and \<^verbatim>\<open>y\<close> and three functions: \<^verbatim>\<open>bump\<close>
  uses \<^verbatim>\<open>x\<close>, \<^verbatim>\<open>idle\<close> uses neither variable, and \<^verbatim>\<open>step\<close> uses \<^verbatim>\<open>y\<close> and declares
  the storage pointer already.
\<close>

definition ledgerTree :: Node where
  "ledgerTree =
     sourceUnit (contractDefinition ''Foo''
       [stateVariable ''x'', stateVariable ''y'',
        functionDefinition ''bump'' [incrementStatement ''x''],
        functionDefinition ''idle'' [incrementStatement ''z''],
        functionDefinition ''step'' [storagePointerStatement, incrementStatement ''y'']])"

text \<open>
  The parser of the examples gives each example text its tree; every contract is taken
  to parse without errors.
\<close>

definition exampleTrees :: "Node list" where
  "exampleTrees =
     [counterTree, migratedBodyTree, existingStructTree, renamedTree, functionFirstTree,
      ledgerTree]"

definition exampleParse :: "string \<Rightarrow> Node" where
  "exampleParse source =
     (case List.find (\<lambda>t. unparse t = source) exampleTrees of
        Some t \<Rightarrow> t
      | None \<Rightarrow> NonterminalNode SourceUnit [])"

text \<open>Stand-ins for the two printers, and the environment of the examples.\<close>

definition exampleTemplate :: "Namespace \<Rightarrow> string" where
  "exampleTemplate ns =
     ''/// @custom:storage-location erc7201:'' @ getNamespaceId (nsPrefix ns) (nsContractName ns)
     @ [CHR 0x0A] @ ''struct '' @ toStorageStructName (nsContractName ns) @ '' {''
     @ concat (map (\<lambda>v. '' '' @ content v) (nsVariables ns)) @ '' }''"

definition exampleGetter :: "string \<Rightarrow> string \<Rightarrow> string \<Rightarrow> string \<Rightarrow> string" where
  "exampleGetter n t structName ind =
     ''function '' @ n @ ''() external view returns ('' @ t @ '') { return _get''
     @ structName @ ''().'' @ n @ ''; }''"

definition exampleEnv :: Env where
  "exampleEnv =
     \<lparr> parseSourceUnit = exampleParse,
       contractIsValid = (\<lambda>source. True),
       printNamespaceTemplate = exampleTemplate,
       printPublicGetter = exampleGetter,
       getNamespacePrefix = (\<lambda>textDocument. ''erc7201'') \<rparr>"

text \<open>The same environment with the printer of the namespace as modelled above.\<close>

definition templateEnv :: Env where
  "templateEnv =
     \<lparr> parseSourceUnit = exampleParse,
       contractIsValid = (\<lambda>source. True),
       printNamespaceTemplate = namespaceTemplate,
       printPublicGetter = exampleGetter,
       getNamespacePrefix = (\<lambda>textDocument. ''erc7201'') \<rparr>"

text \<open>The document of a tree, and variables and diagnostics as the server would send them.\<close>

definition document :: "Node \<Rightarrow> TextDocument" where
  "document tree = \<lparr> uri = ''file:///Foo.sol'', getText = unparse tree \<rparr>"

definition variableX :: Variable where
  "variableX = \<lparr> name = ''x'', content = ''uint256 x;'', varRange = (15, 25), publicGetter = None \<rparr>"

definition variableY :: Variable where
  "variableY = \<lparr> name = ''y'', content = ''uint256 y;'', varRange = (26, 36), publicGetter = None \<rparr>"

definition staleHashDiagnostic :: Diagnostic where
  "staleHashDiagnostic =
     \<lparr> diagRange = (30, 96), code = NAMESPACE_HASH_MISMATCH,
       fixData = Some (Replacement ''0x01'') \<rparr>"

definition noDataDiagnostic :: Diagnostic where
  "noDataDiagnostic =
     \<lparr> diagRange = (9, 12), code = CONTRACT_CAN_BE_NAMESPACED, fixData = None \<rparr>"

text \<open>The cursor the fix has on the first contract of a tree.\<close>

definition contractCursor :: "Node \<Rightarrow> Cursor" where
  "contractCursor tree =
     spawn (snd (goToNextNonterminalWithKind ContractDefinition (createTreeCursor tree)))"

definition structVariableX :: Variable where
  "structVariableX =
     \<lparr> name = ''x'', content = ''uint256 x;'', varRange = (106, 116), publicGetter = None \<rparr>"

definition structVariableY :: Variable where
  "structVariableY =
     \<lparr> name = ''y'', content = ''uint256 y;'', varRange = (117, 127), publicGetter = None \<rparr>"

text \<open>The cursor the fix has on the block of the first body of a contract.\<close>

definition firstBodyCursor :: "Node \<Rightarrow> Cursor" where
  "firstBodyCursor tree =
     snd (goToNextNonterminalWithKind Block
            (spawn (snd (goToNextNonterminalWithKinds [ConstructorDefinition, FunctionBody]
                           (spawn (contractCursor tree))))))"

section \<open>The loops agree with their descriptions\<close>

lemma seek_None: "seek P xs = None \<Longrightarrow> filter (\<lambda>x. P (fst x)) xs = []"
  by (induction xs) (auto split: if_splits)

lemma seek_Some:
  "seek P xs = Some (x, ys) \<Longrightarrow> filter (\<lambda>x. P (fst x)) xs = x # filter (\<lambda>x. P (fst x)) ys"
  by (induction xs) (auto split: if_splits)

lemma seek_Some_P: "seek P xs = Some (x, ys) \<Longrightarrow> P (fst x)"
  by (induction xs) (auto split: if_splits)

lemma seek_find: "map_option fst (seek P xs) = List.find (\<lambda>x. P (fst x)) xs"
  by (induction xs) auto

lemma identifierMatches_filter:
  "filter (identifierMatches vs) xs
     = filter (identifierMatches vs) (filter (\<lambda>x. isTerminalWithKind Identifier (fst x)) xs)"
  by (induction xs) (auto simp: identifierMatches_def)

lemma replaceVariablesLoop_eq:
  "\<not> isCompleted c \<Longrightarrow>
   replaceVariablesLoop variables textDocument c needs edits
     = Inr (needs \<or> filter (identifierMatches variables) (pending c) \<noteq> [],
            edits @ map (rewriteEdit textDocument) (filter (identifierMatches variables) (pending c)))"
proof (induction variables textDocument c needs edits rule: replaceVariablesLoop.induct)
  case (1 variables textDocument c needs edits)
  show ?case
  proof (cases "seek (isTerminalWithKind Identifier) (pending c)")
    case None
    then have "filter (identifierMatches variables) (pending c) = []"
      using identifierMatches_filter [of variables "pending c"] by (simp add: seek_None)
    with None 1(3) show ?thesis
      by (subst replaceVariablesLoop.simps)
         (simp add: goToNextTerminalWithKind_def goToNextWith_def)
  next
    case (Some p)
    obtain x ys where p: "p = (x, ys)" by (cases p)
    obtain n r where x: "x = (n, r)" by (cases x)
    from Some p have P: "isTerminalWithKind Identifier (fst x)" by (auto dest: seek_Some_P)
    then obtain k t where n: "n = TerminalNode k t" "k = Identifier"
      using x by (cases n) auto
    let ?c' = "c\<lparr> cur := x, pending := ys \<rparr>"
    have go: "goToNextTerminalWithKind Identifier c = (True, ?c')"
      using Some p 1(3) by (simp add: goToNextTerminalWithKind_def goToNextWith_def)
    have fl: "filter (identifierMatches variables) (pending c)
        = (if identifierMatches variables x then [x] else []) @ filter (identifierMatches variables) ys"
      using identifierMatches_filter [of variables "pending c"]
        identifierMatches_filter [of variables ys] seek_Some [OF Some [unfolded p]]
      by simp
    have m: "identifierMatches variables x = list_ex (\<lambda>variable. name variable = t) variables"
      using x n by (auto simp: identifierMatches_def list_ex_iff)
    show ?thesis
    proof (cases "identifierMatches variables x")
      case True
      have "replaceVariablesLoop variables textDocument c needs edits
          = replaceVariablesLoop variables textDocument ?c' True
              (edits @ [\<lparr> editRange = slangToVSCodeRange textDocument (textRange ?c'),
                            newText = ''$.'' @ t \<rparr>])"
        using go True m x n by (subst replaceVariablesLoop.simps) (simp add: node_def)
      also have "\<dots> = Inr (True, (edits @ [\<lparr> editRange = slangToVSCodeRange textDocument (textRange ?c'),
                            newText = ''$.'' @ t \<rparr>]) @ map (rewriteEdit textDocument) (filter (identifierMatches variables) ys))"
        using 1(1) [OF go [symmetric] refl, of k t] True m x n 1(3) by (simp add: node_def)
      finally show ?thesis using fl True x n by (simp add: rewriteEdit_def textRange_def)
    next
      case False
      have "replaceVariablesLoop variables textDocument c needs edits
          = replaceVariablesLoop variables textDocument ?c' needs edits"
        using go False m x n by (subst replaceVariablesLoop.simps) (simp add: node_def)
      also have "\<dots> = Inr (needs \<or> filter (identifierMatches variables) ys \<noteq> [],
            edits @ map (rewriteEdit textDocument) (filter (identifierMatches variables) ys))"
        using 1(2) [OF go [symmetric] refl, of k t] False m x n 1(3) by (simp add: node_def)
      finally show ?thesis using fl False by simp
    qed
  qed
qed

lemma spawn_simps [simp]:
  "cur (spawn c) = cur c" "pending (spawn c) = descendants (fst (snd (cur c))) (fst (cur c))"
  "origin (spawn c) = cur c" "\<not> isCompleted (spawn c)"
  by (simp_all add: spawn_def)

lemma cur_goToNextWith:
  "\<not> isCompleted c \<Longrightarrow>
   cur (snd (goToNextWith P c))
     = (case List.find (\<lambda>x. P (fst x)) (pending c) of None \<Rightarrow> origin c | Some x \<Rightarrow> x)"
  using seek_find [of P "pending c"]
  by (auto simp: goToNextWith_def split: option.splits)

lemma replaceVariables_eq:
  "replaceVariables blockCursor variables edits textDocument
     = Inr (referencesVariables variables (cur blockCursor),
            edits @ identifierEdits variables textDocument (cur blockCursor))"
  by (simp add: replaceVariables_def replaceVariablesLoop_eq referencesVariables_def
        identifierEdits_def)

lemma addStorageGetter_eq:
  "addStorageGetter contractName (fst (cur c)) c edits textDocument
     = (if hasStoragePointer contractName (cur c) then Inr edits
        else (case openBraceOf (cur c) of
                None \<Rightarrow> Inl AssertionError
              | Some r \<Rightarrow> Inr (edits @ [storagePointerEdit contractName textDocument r])))"
proof (cases "seek (isTerminalWithKind OpenBrace) (descendants (fst (snd (cur c))) (fst (cur c)))")
  case None
  then show ?thesis
    using seek_find [of "isTerminalWithKind OpenBrace" "descendants (fst (snd (cur c))) (fst (cur c))"]
    by (simp add: addStorageGetter_def hasStoragePointer_def openBraceOf_def
          goToNextTerminalWithKind_def goToNextWith_def)
next
  case (Some p)
  then show ?thesis
    using seek_find [of "isTerminalWithKind OpenBrace" "descendants (fst (snd (cur c))) (fst (cur c))", symmetric]
    by (cases p)
       (auto simp: addStorageGetter_def hasStoragePointer_def openBraceOf_def
          goToNextTerminalWithKind_def goToNextWith_def storagePointerEdit_def textRange_def)
qed

lemma find_Some_P: "List.find P xs = Some x \<Longrightarrow> P x"
  by (induction xs) (auto split: if_splits)

lemma bodyBlock_nonterminal:
  "isNonterminalWithKinds ks (fst x) \<Longrightarrow> \<exists>k cs. fst (bodyBlock x) = NonterminalNode k cs"
proof (cases "List.find (\<lambda>y. isNonterminalWithKinds [Block] (fst y))
             (descendants (fst (snd x)) (fst x))")
  case None
  assume "isNonterminalWithKinds ks (fst x)"
  with None show ?thesis by (cases "fst x") (auto simp: bodyBlock_def)
next
  case (Some b)
  then have "isNonterminalWithKinds [Block] (fst b)" by (auto dest: find_Some_P)
  with Some show ?thesis by (cases "fst b") (auto simp: bodyBlock_def)
qed

lemma blockCursor_cur:
  "cur (snd (goToNextNonterminalWithKind Block (spawn c))) = bodyBlock (cur c)"
  by (simp add: goToNextNonterminalWithKind_def goToNextNonterminalWithKinds_def
        cur_goToNextWith bodyBlock_def split: option.splits)

lemma editFunctionsLoop_eq:
  "\<not> isCompleted c \<Longrightarrow>
   editFunctionsLoop contractName variables textDocument c edits
     = (if bracesPresent contractName variables (map bodyBlock (filter isBody (pending c)))
        then Inr (edits @ concat (map (bodyEdits contractName variables textDocument)
                                   (map bodyBlock (filter isBody (pending c)))))
        else Inl AssertionError)"
proof (induction "length (pending c)" arbitrary: c edits rule: less_induct)
  case less
  let ?P = "isNonterminalWithKinds [ConstructorDefinition, FunctionBody]"
  have isBody: "isBody = (\<lambda>x. ?P (fst x))" by (simp add: isBody_def fun_eq_iff)
  show ?case
  proof (cases "seek ?P (pending c)")
    case None
    then have "filter isBody (pending c) = []" by (simp add: isBody seek_None)
    with None less.prems show ?thesis
      by (subst editFunctionsLoop.simps)
         (simp add: goToNextNonterminalWithKinds_def goToNextWith_def bracesPresent_def)
  next
    case (Some p)
    obtain x ys where p: "p = (x, ys)" by (cases p)
    let ?c' = "c\<lparr> cur := x, pending := ys \<rparr>"
    let ?bc = "snd (goToNextNonterminalWithKind Block (spawn ?c'))"
    let ?b = "bodyBlock x"
    have go: "goToNextNonterminalWithKinds [ConstructorDefinition, FunctionBody] c = (True, ?c')"
      using Some p less.prems by (simp add: goToNextNonterminalWithKinds_def goToNextWith_def)
    have fl: "filter isBody (pending c) = x # filter isBody ys"
      using seek_Some [OF Some [unfolded p]] by (simp add: isBody)
    have Px: "?P (fst x)" using Some p by (auto dest: seek_Some_P)
    have bc: "cur ?bc = ?b" by (simp add: blockCursor_cur)
    obtain k cs where b: "fst ?b = NonterminalNode k cs"
      using bodyBlock_nonterminal [OF Px] by blast
    have nb: "node ?bc = NonterminalNode k cs" using bc b by (simp add: node_def)
    have rv: "replaceVariables ?bc variables edits textDocument
        = Inr (referencesVariables variables ?b, edits @ identifierEdits variables textDocument ?b)"
      using bc by (simp add: replaceVariables_eq)
    have asg: "addStorageGetter contractName (NonterminalNode k cs) ?bc es textDocument
        = (if hasStoragePointer contractName ?b then Inr es
           else (case openBraceOf ?b of
                   None \<Rightarrow> Inl AssertionError
                 | Some r \<Rightarrow> Inr (es @ [storagePointerEdit contractName textDocument r])))" for es
      using addStorageGetter_eq [of contractName ?bc es textDocument] bc b by simp
    have IH: "editFunctionsLoop contractName variables textDocument ?c' es
        = (if bracesPresent contractName variables (map bodyBlock (filter isBody ys))
           then Inr (es @ concat (map (bodyEdits contractName variables textDocument)
                                   (map bodyBlock (filter isBody ys))))
           else Inl AssertionError)" for es
      using less.hyps [of ?c' es] less.prems seek_shorter [OF Some [unfolded p]] by simp
    have step: "editFunctionsLoop contractName variables textDocument c edits
        = (if referencesVariables variables ?b
           then (case addStorageGetter contractName (NonterminalNode k cs) ?bc
                        (edits @ identifierEdits variables textDocument ?b) textDocument of
                   Inl e \<Rightarrow> Inl e
                 | Inr edits2 \<Rightarrow> editFunctionsLoop contractName variables textDocument ?c' edits2)
           else editFunctionsLoop contractName variables textDocument ?c'
                  (edits @ identifierEdits variables textDocument ?b))"
      using go nb rv by (subst editFunctionsLoop.simps) (simp add: Let_def)
    show ?thesis
      unfolding step asg IH fl
      by (cases "openBraceOf ?b")
         (simp_all add: bracesPresent_def bodyEdits_def needsStoragePointer_def)
  qed
qed

lemma getNamespaceStructEndRange_eq:
  assumes "fst (cur c) = NonterminalNode k cs"
  shows "getNamespaceStructEndRange c prefix contractName
           = namespaceStructEnd prefix contractName (cur c)"
proof -
  let ?ds = "descendants (fst (snd (cur c))) (fst (cur c))"
  have brace: "textRange (snd (goToNextTerminalWithKind CloseBrace (spawn c)))
      = (case firstTerminal CloseBrace (cur c) of None \<Rightarrow> snd (cur c) | Some z \<Rightarrow> snd z)"
    by (simp add: textRange_def goToNextTerminalWithKind_def cur_goToNextWith firstTerminal_def
          split: option.splits)
  have nat: "cur (snd (goToNextTerminalWithKind SingleLineNatSpecComment (spawn c)))
      = (case firstTerminal SingleLineNatSpecComment (cur c) of None \<Rightarrow> cur c | Some z \<Rightarrow> z)"
    by (simp add: goToNextTerminalWithKind_def cur_goToNextWith firstTerminal_def
          split: option.splits)
  show ?thesis
  proof (cases "firstTerminal SingleLineNatSpecComment (cur c)")
    case None
    with nat assms show ?thesis
      by (simp add: getNamespaceStructEndRange_def namespaceStructEnd_def node_def)
  next
    case (Some z)
    then have "isTerminalWithKind SingleLineNatSpecComment (fst z)"
      by (auto simp: firstTerminal_def dest: find_Some_P)
    then obtain t where "fst z = TerminalNode SingleLineNatSpecComment t"
      by (cases "fst z") auto
    with nat Some brace show ?thesis
      by (simp add: getNamespaceStructEndRange_def namespaceStructEnd_def node_def
            storageLocationTag_def split: option.splits)
  qed
qed

lemma editNamespaceVariablesInFunctions_eq:
  "editNamespaceVariablesInFunctions c contractName variables textDocument edits
     = (if bracesPresent contractName variables (bodies (cur c))
        then Inr (edits @ concat (map (bodyEdits contractName variables textDocument)
                                   (bodies (cur c))))
        else Inl AssertionError)"
  by (simp add: editNamespaceVariablesInFunctions_def editFunctionsLoop_eq bodies_def)

lemma contractsLoop_eq:
  "\<not> isCompleted c \<Longrightarrow> contractsNamed env (filter isContract (pending c)) \<Longrightarrow>
   contractsLoop env prefix contractName variables textDocument c edits
     = (case List.find (matchesContract env contractName) (filter isContract (pending c)) of
          None \<Rightarrow> Inr (None, edits)
        | Some contract \<Rightarrow>
            (if bracesPresent contractName variables (bodies contract)
             then Inr (namespaceStructEnd prefix contractName contract,
                       edits @ concat (map (bodyEdits contractName variables textDocument)
                                         (bodies contract)))
             else Inl AssertionError))"
proof (induction "length (pending c)" arbitrary: c rule: less_induct)
  case less
  let ?P = "isNonterminalWithKinds [ContractDefinition]"
  have isC: "isContract = (\<lambda>x. ?P (fst x))" by (simp add: isContract_def fun_eq_iff)
  show ?case
  proof (cases "seek ?P (pending c)")
    case None
    then have "filter isContract (pending c) = []" by (simp add: isC seek_None)
    with None less.prems show ?thesis
      by (subst contractsLoop.simps)
         (simp add: goToNextNonterminalWithKind_def goToNextNonterminalWithKinds_def
            goToNextWith_def)
  next
    case (Some p)
    obtain x ys where p: "p = (x, ys)" by (cases p)
    let ?c' = "c\<lparr> cur := x, pending := ys \<rparr>"
    have go: "goToNextNonterminalWithKind ContractDefinition c = (True, ?c')"
      using Some p less.prems
      by (simp add: goToNextNonterminalWithKind_def goToNextNonterminalWithKinds_def
            goToNextWith_def)
    have fl: "filter isContract (pending c) = x # filter isContract ys"
      using seek_Some [OF Some [unfolded p]] by (simp add: isC)
    have Px: "?P (fst x)" using Some p by (auto dest: seek_Some_P)
    then obtain k cs where x: "fst x = NonterminalNode k cs" by (cases "fst x") auto
    have named: "contractsNamed env (filter isContract ys)"
      and nx: "\<not> contractIsValid env (unparse (fst x)) \<or> contractDefName (fst x) \<noteq> None"
      using less.prems(2) fl by (simp_all add: contractsNamed_def)
    have IH: "contractsLoop env prefix contractName variables textDocument ?c' edits
        = (case List.find (matchesContract env contractName) (filter isContract ys) of
            None \<Rightarrow> Inr (None, edits)
          | Some contract \<Rightarrow>
              (if bracesPresent contractName variables (bodies contract)
               then Inr (namespaceStructEnd prefix contractName contract,
                         edits @ concat (map (bodyEdits contractName variables textDocument)
                                           (bodies contract)))
               else Inl AssertionError))"
      using less.hyps [of ?c'] less.prems(1) named seek_shorter [OF Some [unfolded p]] by simp
    have step: "contractsLoop env prefix contractName variables textDocument c edits
        = (if \<not> contractIsValid env (unparse (fst x))
           then contractsLoop env prefix contractName variables textDocument ?c' edits
           else (case contractDefName (fst x) of
                   None \<Rightarrow> Inl AstError
                 | Some contractDefNameText \<Rightarrow>
                     (if contractDefNameText \<noteq> contractName
                      then contractsLoop env prefix contractName variables textDocument ?c' edits
                      else (case editNamespaceVariablesInFunctions (spawn ?c')
                                   contractName variables textDocument edits of
                              Inl e \<Rightarrow> Inl e
                            | Inr edits1 \<Rightarrow>
                                Inr (getNamespaceStructEndRange (spawn ?c')
                                       prefix contractName, edits1)))))"
      using go x by (subst contractsLoop.simps) (simp add: Let_def node_def)
    have ns: "getNamespaceStructEndRange (spawn ?c') prefix contractName
        = namespaceStructEnd prefix contractName x"
      using getNamespaceStructEndRange_eq [of "spawn ?c'" k cs prefix contractName] x by simp
    show ?thesis
      unfolding step IH fl ns editNamespaceVariablesInFunctions_eq
      using nx by (auto simp: matchesContract_def)
  qed
qed

lemma editExistingNamespace_eq:
  "editExistingNamespace env contractName textDocument variables edits structEndRange
     = edits @ concat (map (variableEdits env contractName textDocument structEndRange) variables)"
  by (induction variables arbitrary: edits) (simp_all add: variableEdits_def)

lemma editNewNamespace_eq:
  "variables \<noteq> [] \<Longrightarrow>
   editNewNamespace env prefix contractName variables edits
     = Inr (edits @ newNamespaceEdits env prefix contractName variables)"
  by (cases variables) (simp_all add: editNewNamespace_def newNamespaceEdits_def)

lemma quickFix_of_loop:
  "contractsLoop env prefix contractName variables textDocument
       (createTreeCursor (parseSourceUnit env (getText textDocument))) [] = Inr (structEnd, edits)
   \<Longrightarrow> getMoveAllVariablesToNamespaceQuickFix env fixesDiagnostics t prefix contractName
         variables textDocument
       = (if variables = [] then Inr None
          else Inr (Some \<lparr> title = t, kind = QuickFix,
                      edit = [(uri textDocument,
                               edits @ namespaceEdits env prefix contractName textDocument
                                         variables structEnd)],
                      diagnostics = fixesDiagnostics \<rparr>))"
  by (cases structEnd)
     (simp_all add: getMoveAllVariablesToNamespaceQuickFix_def editExistingNamespace_eq
        editNewNamespace_eq namespaceEdits_def)

lemma contractsLoop_document:
  "contractsNamed env (contracts env textDocument) \<Longrightarrow>
   contractsLoop env prefix contractName variables textDocument
       (createTreeCursor (parseSourceUnit env (getText textDocument))) []
     = (case List.find (matchesContract env contractName) (contracts env textDocument) of
          None \<Rightarrow> Inr (None, [])
        | Some contract \<Rightarrow>
            (if bracesPresent contractName variables (bodies contract)
             then Inr (namespaceStructEnd prefix contractName contract,
                       concat (map (bodyEdits contractName variables textDocument)
                                 (bodies contract)))
             else Inl AssertionError))"
  using contractsLoop_eq [of "createTreeCursor (parseSourceUnit env (getText textDocument))" env
      prefix contractName variables textDocument "[]"]
  by (simp add: createTreeCursor_def contracts_def split: option.splits)

lemma bracesPresent_no_variables: "bracesPresent contractName [] bs"
  by (simp add: bracesPresent_def needsStoragePointer_def referencesVariables_def
        identifierMatches_def list_all_iff)

section \<open>Properties\<close>

subsection \<open>Code actions for a batch of diagnostics\<close>

lemma codeActionStep_mismatch:
  assumes "code d \<in> set mismatchCodes" and "fixData d = Some (Replacement r)"
  shows "\<exists>t. codeActionStep env ds textDocument d acts
           = Inr (acts @ [\<lparr> title = t, kind = QuickFix,
                            edit = [(uri textDocument,
                                     [\<lparr> editRange = diagRange d, newText = r \<rparr>])],
                            diagnostics = [d] \<rparr>])"
  using assms
  by (auto simp: codeActionStep_def mismatchCodes_def getQuickFixReplacement_def)

text \<open>
  Claim C7. For a diagnostic of one of the four mismatch kinds whose fix datum is a
  replacement string, the step of \<^verbatim>\<open>getCodeActions\<close> pushes one code action; the
  action has exactly one text edit, on the diagnostic's range, with the replacement
  string as its text. For a batch of that one diagnostic this is the whole result.
\<close>

theorem mismatch_fix_is_one_replacement:
  assumes "code d \<in> set mismatchCodes" and "fixData d = Some (Replacement r)"
  shows "(\<exists>t. codeActionStep env ds textDocument d acts
            = Inr (acts @ [\<lparr> title = t, kind = QuickFix,
                             edit = [(uri textDocument,
                                      [\<lparr> editRange = diagRange d, newText = r \<rparr>])],
                             diagnostics = [d] \<rparr>]))
       \<and> map edit (getCodeActions env [d] textDocument)
            = [[(uri textDocument, [\<lparr> editRange = diagRange d, newText = r \<rparr>])]]"
proof -
  obtain t where "codeActionStep env [d] textDocument d []
           = Inr ([] @ [\<lparr> title = t, kind = QuickFix,
                            edit = [(uri textDocument,
                                     [\<lparr> editRange = diagRange d, newText = r \<rparr>])],
                            diagnostics = [d] \<rparr>])"
    using codeActionStep_mismatch [OF assms] by blast
  then have "map edit (getCodeActions env [d] textDocument)
            = [[(uri textDocument, [\<lparr> editRange = diagRange d, newText = r \<rparr>])]]"
    by (simp add: getCodeActions_def)
  with codeActionStep_mismatch [OF assms] show ?thesis by blast
qed

text \<open>The theorem of C7 at the stale-hash diagnostic of the examples.\<close>

theorem mismatch_fix_witness:
  "map edit (getCodeActions exampleEnv [staleHashDiagnostic] (document existingStructTree))
     = [[(''file:///Foo.sol'', [\<lparr> editRange = (30, 96), newText = ''0x01'' \<rparr>])]]"
proof -
  have c: "code staleHashDiagnostic \<in> set mismatchCodes"
    by (simp add: staleHashDiagnostic_def mismatchCodes_def)
  have f: "fixData staleHashDiagnostic = Some (Replacement ''0x01'')"
    by (simp add: staleHashDiagnostic_def)
  from mismatch_fix_is_one_replacement
         [OF c f, where env = exampleEnv and textDocument = "document existingStructTree"]
  show ?thesis by (simp add: document_def staleHashDiagnostic_def)
qed

lemma getCodeActionsLoop_append:
  "getCodeActionsLoop env all textDocument ds1 acts0 = (acts, None) \<Longrightarrow>
   getCodeActionsLoop env all textDocument (ds1 @ ds2) acts0
     = getCodeActionsLoop env all textDocument ds2 acts"
  by (induction ds1 arbitrary: acts0) (auto split: sum.splits)

text \<open>
  Claim C4, as amended. The \<^verbatim>\<open>try\<close> of \<^verbatim>\<open>getCodeActions\<close> encloses the whole loop.
  When the diagnostics before \<open>d\<close> are processed without a failure and give the actions
  \<open>acts\<close>, and the step for \<open>d\<close> throws, the result of the batch is \<open>acts\<close>: the failure
  gives no action for \<open>d\<close>, keeps the actions computed before it, and the diagnostics
  \<open>ds2\<close> after \<open>d\<close> are not processed.
\<close>

theorem failure_ends_the_batch:
  assumes "getCodeActionsLoop env (ds1 @ d # ds2) textDocument ds1 [] = (acts, None)"
    and "codeActionStep env (ds1 @ d # ds2) textDocument d acts = Inl e"
  shows "getCodeActions env (ds1 @ d # ds2) textDocument = acts"
  using getCodeActionsLoop_append [OF assms(1), of "d # ds2"] assms(2)
  by (simp add: getCodeActions_def)

text \<open>
  Claim C4 as stated fails: a diagnostic whose datum is missing makes the step throw, and
  the mismatch diagnostic after it, which alone has its code action, gets none.
\<close>

theorem failure_aborts_later_diagnostics:
  "getCodeActions exampleEnv [noDataDiagnostic, staleHashDiagnostic] (document existingStructTree)
     = []
   \<and> getCodeActions exampleEnv [staleHashDiagnostic] (document existingStructTree)
     = [\<lparr> title = ''Recalculate hash using comment'', kind = QuickFix,
          edit = [(''file:///Foo.sol'', [\<lparr> editRange = (30, 96), newText = ''0x01'' \<rparr>])],
          diagnostics = [staleHashDiagnostic] \<rparr>]"
  by (simp add: getCodeActions_def codeActionStep_def noDataDiagnostic_def
        staleHashDiagnostic_def getQuickFixReplacement_def document_def
        CONTRACT_CAN_BE_NAMESPACED_def NAMESPACE_ID_MISMATCH_def
        NAMESPACE_ID_MISMATCH_HASH_COMMENT_def NAMESPACE_HASH_MISMATCH_def
        NAMESPACE_STANDALONE_HASH_MISMATCH_def)

text \<open>
  The theorem of C4 at a batch of three: the first diagnostic keeps its action, the
  second throws, the third is not reached.
\<close>

theorem failure_ends_the_batch_witness:
  "getCodeActions exampleEnv [staleHashDiagnostic, noDataDiagnostic, staleHashDiagnostic]
       (document existingStructTree)
     = [\<lparr> title = ''Recalculate hash using comment'', kind = QuickFix,
          edit = [(''file:///Foo.sol'', [\<lparr> editRange = (30, 96), newText = ''0x01'' \<rparr>])],
          diagnostics = [staleHashDiagnostic] \<rparr>]"
proof -
  let ?all = "[staleHashDiagnostic] @ noDataDiagnostic # [staleHashDiagnostic]"
  let ?acts = "[\<lparr> title = ''Recalculate hash using comment'', kind = QuickFix,
          edit = [(''file:///Foo.sol'', [\<lparr> editRange = (30, 96), newText = ''0x01'' \<rparr>])],
          diagnostics = [staleHashDiagnostic] \<rparr>]"
  have a: "getCodeActionsLoop exampleEnv ?all (document existingStructTree)
             [staleHashDiagnostic] [] = (?acts, None)"
    by (simp add: codeActionStep_def noDataDiagnostic_def
        staleHashDiagnostic_def getQuickFixReplacement_def document_def
        CONTRACT_CAN_BE_NAMESPACED_def NAMESPACE_ID_MISMATCH_def
        NAMESPACE_ID_MISMATCH_HASH_COMMENT_def NAMESPACE_HASH_MISMATCH_def
        NAMESPACE_STANDALONE_HASH_MISMATCH_def)
  have b: "codeActionStep exampleEnv ?all (document existingStructTree) noDataDiagnostic ?acts
             = Inl TypeError"
    by (simp add: codeActionStep_def noDataDiagnostic_def
        CONTRACT_CAN_BE_NAMESPACED_def NAMESPACE_ID_MISMATCH_def
        NAMESPACE_ID_MISMATCH_HASH_COMMENT_def NAMESPACE_HASH_MISMATCH_def
        NAMESPACE_STANDALONE_HASH_MISMATCH_def)
  from failure_ends_the_batch [OF a b] show ?thesis by simp
qed

subsection \<open>The move-to-namespace fix as a whole\<close>

lemma find_None_list_ex: "(List.find P xs = None) = (\<not> list_ex P xs)"
  by (induction xs) auto

lemma quickFix_document:
  assumes "contractsNamed env (contracts env textDocument)"
  shows "getMoveAllVariablesToNamespaceQuickFix env fixesDiagnostics t prefix contractName
           variables textDocument
     = (case List.find (matchesContract env contractName) (contracts env textDocument) of
          None \<Rightarrow>
            (if variables = [] then Inr None
             else Inr (Some \<lparr> title = t, kind = QuickFix,
                         edit = [(uri textDocument,
                                  newNamespaceEdits env prefix contractName variables)],
                         diagnostics = fixesDiagnostics \<rparr>))
        | Some contract \<Rightarrow>
            (if \<not> bracesPresent contractName variables (bodies contract)
             then Inl AssertionError
             else if variables = [] then Inr None
             else Inr (Some \<lparr> title = t, kind = QuickFix,
                         edit = [(uri textDocument,
                                  concat (map (bodyEdits contractName variables textDocument)
                                            (bodies contract))
                                  @ namespaceEdits env prefix contractName textDocument variables
                                      (namespaceStructEnd prefix contractName contract))],
                         diagnostics = fixesDiagnostics \<rparr>)))"
proof (cases "List.find (matchesContract env contractName) (contracts env textDocument)")
  case None
  then have "contractsLoop env prefix contractName variables textDocument
       (createTreeCursor (parseSourceUnit env (getText textDocument))) [] = Inr (None, [])"
    using contractsLoop_document [OF assms] by simp
  from quickFix_of_loop [OF this] None show ?thesis
    by (simp add: namespaceEdits_def)
next
  case (Some contract)
  show ?thesis
  proof (cases "bracesPresent contractName variables (bodies contract)")
    case True
    then have "contractsLoop env prefix contractName variables textDocument
       (createTreeCursor (parseSourceUnit env (getText textDocument))) []
        = Inr (namespaceStructEnd prefix contractName contract,
               concat (map (bodyEdits contractName variables textDocument) (bodies contract)))"
      using contractsLoop_document [OF assms] Some by simp
    from quickFix_of_loop [OF this] Some True show ?thesis by simp
  next
    case False
    then have "contractsLoop env prefix contractName variables textDocument
       (createTreeCursor (parseSourceUnit env (getText textDocument))) [] = Inl AssertionError"
      using contractsLoop_document [OF assms] Some by simp
    with Some False show ?thesis
      by (simp add: getMoveAllVariablesToNamespaceQuickFix_def)
  qed
qed

text \<open>
  Claim C3, as amended. When every contract of the document that parses has a name and
  none of them has the name asked for, the fix returns \<^verbatim>\<open>undefined\<close> only for an empty
  list of variables. For a non-empty list it returns an action; its edits are those of
  \<^verbatim>\<open>editNewNamespace\<close> on the ranges the diagnostic carries (the first variable replaced
  by the printed namespace, the others deleted) and nothing else.
\<close>

theorem absent_contract_gets_new_namespace:
  assumes "contractsNamed env (contracts env textDocument)"
    and "\<not> nameOccurs env contractName textDocument"
  shows "getMoveAllVariablesToNamespaceQuickFix env fixesDiagnostics t prefix contractName
           variables textDocument
     = (if variables = [] then Inr None
        else Inr (Some \<lparr> title = t, kind = QuickFix,
                    edit = [(uri textDocument,
                             newNamespaceEdits env prefix contractName variables)],
                    diagnostics = fixesDiagnostics \<rparr>))"
  using quickFix_document [OF assms(1)] assms(2)
  by (simp add: nameOccurs_def find_None_list_ex [symmetric])

text \<open>
  Claim C3 as stated fails: the document's only contract is \<^verbatim>\<open>Bar\<close>, the fix is asked
  for \<^verbatim>\<open>Foo\<close> with the variable of an older text, and an action on that variable's range
  comes back.
\<close>

theorem absent_contract_returns_action:
  "\<not> nameOccurs exampleEnv ''Foo'' (document renamedTree)
   \<and> getMoveAllVariablesToNamespaceQuickFix exampleEnv [] ''Move all variables to namespace''
       ''erc7201'' ''Foo'' [variableX] (document renamedTree)
     = Inr (Some \<lparr> title = ''Move all variables to namespace'', kind = QuickFix,
                 edit = [(''file:///Foo.sol'',
                          [\<lparr> editRange = (15, 25),
                             newText = ''/// @custom:storage-location erc7201:erc7201.storage.Foo''
                               @ [CHR 0x0A] @ ''struct FooStorage { uint256 x; }'' \<rparr>])],
                 diagnostics = [] \<rparr>)"
  by code_simp

text \<open>The theorem of C3 at the same document.\<close>

theorem absent_contract_witness:
  "getMoveAllVariablesToNamespaceQuickFix exampleEnv [] ''Move all variables to namespace''
       ''erc7201'' ''Foo'' [variableX] (document renamedTree)
     = Inr (Some \<lparr> title = ''Move all variables to namespace'', kind = QuickFix,
                 edit = [(''file:///Foo.sol'',
                          [\<lparr> editRange = (15, 25),
                             newText = ''/// @custom:storage-location erc7201:erc7201.storage.Foo''
                               @ [CHR 0x0A] @ ''struct FooStorage { uint256 x; }'' \<rparr>])],
                 diagnostics = [] \<rparr>)"
proof -
  have a: "contractsNamed exampleEnv (contracts exampleEnv (document renamedTree))"
    by code_simp
  have b: "\<not> nameOccurs exampleEnv ''Foo'' (document renamedTree)"
    by code_simp
  have c: "newNamespaceEdits exampleEnv ''erc7201'' ''Foo'' [variableX]
      = [\<lparr> editRange = (15, 25),
           newText = ''/// @custom:storage-location erc7201:erc7201.storage.Foo''
             @ [CHR 0x0A] @ ''struct FooStorage { uint256 x; }'' \<rparr>]"
    by code_simp
  have d: "uri (document renamedTree) = ''file:///Foo.sol''"
    by (simp add: document_def)
  from absent_contract_gets_new_namespace [OF a b, of "[]" "''Move all variables to namespace''"
      "''erc7201''" "[variableX]"]
  show ?thesis by (simp add: c d)
qed

lemma identifierEdits_no_pointer:
  "filter (isStoragePointerEdit contractName) (identifierEdits variables textDocument b) = []"
proof -
  have "\<not> isStoragePointerEdit contractName (rewriteEdit textDocument x)" for x
    by (simp add: isStoragePointerEdit_def storagePointerText_def rewriteEdit_def)
  then show ?thesis
    by (simp add: identifierEdits_def filter_empty_conv)
qed

lemma storagePointerEdit_is_pointer:
  "isStoragePointerEdit contractName (storagePointerEdit contractName textDocument r)"
  by (simp add: isStoragePointerEdit_def storagePointerEdit_def storagePointerText_def)

lemma bodyEdits_pointer_count:
  assumes "\<not> needsStoragePointer contractName variables b \<or> openBraceOf b \<noteq> None"
  shows "storagePointerCount contractName (bodyEdits contractName variables textDocument b)
     = (if needsStoragePointer contractName variables b then 1 else 0)"
proof (cases "needsStoragePointer contractName variables b")
  case False
  then show ?thesis
    by (simp add: storagePointerCount_def bodyEdits_def identifierEdits_no_pointer)
next
  case True
  with assms obtain r where "openBraceOf b = Some r" by auto
  with True show ?thesis
    by (simp add: storagePointerCount_def bodyEdits_def identifierEdits_no_pointer
          storagePointerEdit_is_pointer)
qed

lemma bodies_pointer_counts:
  "bracesPresent contractName variables bs \<Longrightarrow>
   map (\<lambda>b. storagePointerCount contractName (bodyEdits contractName variables textDocument b)) bs
     = map (\<lambda>b. if needsStoragePointer contractName variables b then 1 else 0) bs"
  by (induction bs) (simp_all add: bracesPresent_def bodyEdits_pointer_count)

lemma startsWith_append: "startsWith (s @ b) s"
  by (induction s) simp_all

lemma includesStr_startsWith: "startsWith t s \<Longrightarrow> includesStr t s"
  by (cases t) (auto elim: startsWith.elims)

lemma includesStr_append_left: "includesStr t s \<Longrightarrow> includesStr (a @ t) s"
proof (induction a)
  case Nil
  then show ?case by simp
next
  case (Cons x a)
  then show ?case by simp
qed

lemma includesStr_part: "includesStr (a @ s @ b) s"
  by (rule includesStr_append_left, rule includesStr_startsWith, rule startsWith_append)

lemma includesStr_whole: "t = a @ s @ b \<Longrightarrow> includesStr t s"
  by (simp only: includesStr_part)

lemma namespaceTemplate_parts:
  fixes contractName prefix variables
  defines "id' \<equiv> getNamespaceId prefix contractName"
    and "block \<equiv> namespaceTemplate
           \<lparr> nsContractName = contractName, nsPrefix = prefix, nsVariables = variables \<rparr>"
  shows "includesStr block (formatIdComment id')"
    and "includesStr block (storageLocationTag prefix contractName)"
    and "includesStr block (formatHashComment id' (computeSlotHash id'))"
    and "includesStr block (printStruct (toStorageStructName contractName) variables)"
    and "includesStr block (printAccessor (toStorageStructName contractName) (computeSlotHash id'))"
proof -
  let ?s = "toStorageStructName contractName"
  let ?h = "computeSlotHash id'"
  let ?rest = "[CHR 0x0A] @ indent @ printStruct ?s variables @ [CHR 0x0A, CHR 0x0A]
     @ indent @ formatHashComment id' ?h @ [CHR 0x0A] @ indent @ printAccessor ?s ?h"
  have b: "block = formatIdComment id' @ ?rest"
    by (simp add: block_def id'_def namespaceTemplate_def)
  show "includesStr block (formatIdComment id')"
    by (rule includesStr_whole [where a = "[]"]) (simp add: b)
  show "includesStr block (storageLocationTag prefix contractName)"
    by (rule includesStr_whole [where a = "''/// ''" and b = ?rest])
       (simp add: b formatIdComment_def storageLocationTag_def id'_def)
  show "includesStr block (formatHashComment id' ?h)"
    by (rule includesStr_whole
          [where a = "formatIdComment id' @ [CHR 0x0A] @ indent @ printStruct ?s variables
                        @ [CHR 0x0A, CHR 0x0A] @ indent"
             and b = "[CHR 0x0A] @ indent @ printAccessor ?s ?h"])
       (simp add: b)
  show "includesStr block (printStruct ?s variables)"
    by (rule includesStr_whole
          [where a = "formatIdComment id' @ [CHR 0x0A] @ indent"
             and b = "[CHR 0x0A, CHR 0x0A] @ indent @ formatHashComment id' ?h @ [CHR 0x0A]
                        @ indent @ printAccessor ?s ?h"])
       (simp add: b)
  show "includesStr block (printAccessor ?s ?h)"
    by (rule includesStr_whole
          [where a = "formatIdComment id' @ [CHR 0x0A] @ indent @ printStruct ?s variables
                        @ [CHR 0x0A, CHR 0x0A] @ indent @ formatHashComment id' ?h
                        @ [CHR 0x0A] @ indent"
             and b = "[]"])
       (simp add: b)
qed

lemma printStruct_fields:
  "includesStr (printStruct structName variables)
     (concat (map (\<lambda>variable. indent @ indent @ content variable @ [CHR 0x0A]) variables))"
  by (rule includesStr_whole
        [where a = "''struct '' @ structName @ '' {'' @ [CHR 0x0A]" and b = "indent @ ''}''"])
     (simp add: printStruct_def structField_def [abs_def])


lemma example_namespace_slot:
  "computeSlotHash ''erc7201.storage.Foo''
    = ''0xf2eacd0d8c40359509ad29d2b0d1d490123f1f694be8e963bad33c39476cd600''"
  by code_simp

text \<open>
  Claim C5, as amended. For a contract the fix finds, with no namespace struct detected
  and the variables \<open>variable0 # others\<close>, the action's edits are: the edits of the
  bodies, then one edit that replaces the range of the first variable by the namespace
  block, then one edit with empty text on the range of each other variable. The block is
  what the printer of the namespace prints for the contract, the prefix and all the
  variables: it has the id comment, the hash comment with the slot hash of the
  identifier, the struct, whose fields are the declarations of the variables as they
  are, one per line and in their order, and the accessor function. Among the edits of a
  body there is exactly one that declares the storage pointer when the body has an
  identifier named like a variable and its text does not yet have the declaration, and
  none otherwise.
\<close>

theorem new_namespace_edits:
  fixes env textDocument contractName contract prefix variables variable0 others
    fixesDiagnostics t
  defines "block \<equiv> namespaceTemplate
             \<lparr> nsContractName = contractName, nsPrefix = prefix, nsVariables = variables \<rparr>"
  assumes "contractsNamed env (contracts env textDocument)"
    and "targetContract env contractName textDocument = Some contract"
    and "namespaceStructEnd prefix contractName contract = None"
    and "bracesPresent contractName variables (bodies contract)"
    and "variables = variable0 # others"
    and "printNamespaceTemplate env = namespaceTemplate"
  shows "getMoveAllVariablesToNamespaceQuickFix env fixesDiagnostics t prefix contractName
           variables textDocument
     = Inr (Some \<lparr> title = t, kind = QuickFix,
              edit = [(uri textDocument,
                       concat (map (bodyEdits contractName variables textDocument)
                                 (bodies contract))
                       @ \<lparr> editRange = varRange variable0, newText = block \<rparr>
                       # map (\<lambda>variable. \<lparr> editRange = varRange variable, newText = [] \<rparr>)
                           others)],
              diagnostics = fixesDiagnostics \<rparr>)
   \<and> map (\<lambda>b. storagePointerCount contractName
                  (bodyEdits contractName variables textDocument b)) (bodies contract)
     = map (\<lambda>b. if referencesVariables variables b \<and> \<not> hasStoragePointer contractName b
                 then 1 else 0) (bodies contract)
   \<and> includesStr block (formatIdComment (getNamespaceId prefix contractName))
   \<and> includesStr block
       (formatHashComment (getNamespaceId prefix contractName)
          (computeSlotHash (getNamespaceId prefix contractName)))
   \<and> includesStr block (printStruct (toStorageStructName contractName) variables)
   \<and> includesStr (printStruct (toStorageStructName contractName) variables)
       (concat (map (\<lambda>variable. indent @ indent @ content variable @ [CHR 0x0A]) variables))
   \<and> includesStr block
       (printAccessor (toStorageStructName contractName)
          (computeSlotHash (getNamespaceId prefix contractName)))"
proof -
  have "getMoveAllVariablesToNamespaceQuickFix env fixesDiagnostics t prefix contractName
           variables textDocument
     = Inr (Some \<lparr> title = t, kind = QuickFix,
              edit = [(uri textDocument,
                       concat (map (bodyEdits contractName variables textDocument)
                                 (bodies contract))
                       @ newNamespaceEdits env prefix contractName variables)],
              diagnostics = fixesDiagnostics \<rparr>)"
    using quickFix_document [OF assms(2), of fixesDiagnostics t prefix contractName variables]
      assms(3-6)
    by (simp add: targetContract_def namespaceEdits_def)
  moreover have "newNamespaceEdits env prefix contractName variables
      = \<lparr> editRange = varRange variable0, newText = block \<rparr>
        # map (\<lambda>variable. \<lparr> editRange = varRange variable, newText = [] \<rparr>) others"
    using assms(6) by (simp add: newNamespaceEdits_def assms(7) block_def)
  ultimately have action: "getMoveAllVariablesToNamespaceQuickFix env fixesDiagnostics t prefix
           contractName variables textDocument
     = Inr (Some \<lparr> title = t, kind = QuickFix,
              edit = [(uri textDocument,
                       concat (map (bodyEdits contractName variables textDocument)
                                 (bodies contract))
                       @ \<lparr> editRange = varRange variable0, newText = block \<rparr>
                       # map (\<lambda>variable. \<lparr> editRange = varRange variable, newText = [] \<rparr>)
                           others)],
              diagnostics = fixesDiagnostics \<rparr>)"
    by (simp only:)
  have counts: "map (\<lambda>b. storagePointerCount contractName
                  (bodyEdits contractName variables textDocument b)) (bodies contract)
     = map (\<lambda>b. if referencesVariables variables b \<and> \<not> hasStoragePointer contractName b
                 then 1 else 0) (bodies contract)"
    using bodies_pointer_counts [OF assms(5), of textDocument]
    by (simp add: needsStoragePointer_def)
  note parts = namespaceTemplate_parts [of contractName prefix variables, folded block_def]
  from action counts parts(1,3,4,5) printStruct_fields show ?thesis by blast
qed

text \<open>
  Claim C5 as stated fails: the one body of the contract uses \<^verbatim>\<open>x\<close>, no namespace
  struct is detected, and the action has no edit that declares the storage pointer,
  because the body's text has the declaration already.
\<close>

theorem migrated_body_gets_no_pointer:
  "map (referencingBodyCount [variableX]) (contracts exampleEnv (document migratedBodyTree)) = [1]
   \<and> map (namespaceStructEnd ''erc7201'' ''Foo'') (contracts exampleEnv (document migratedBodyTree))
       = [None]
   \<and> getMoveAllVariablesToNamespaceQuickFix exampleEnv [] ''Move all variables to namespace''
       ''erc7201'' ''Foo'' [variableX] (document migratedBodyTree)
     = Inr (Some \<lparr> title = ''Move all variables to namespace'', kind = QuickFix,
                 edit = [(''file:///Foo.sol'',
                          [\<lparr> editRange = (92, 93), newText = ''$.x'' \<rparr>,
                           \<lparr> editRange = (15, 25),
                             newText = ''/// @custom:storage-location erc7201:erc7201.storage.Foo''
                               @ [CHR 0x0A] @ ''struct FooStorage { uint256 x; }'' \<rparr>])],
                 diagnostics = [] \<rparr>)"
  by code_simp

text \<open>
  The theorem of C5 at a contract with two variables and three functions: the first
  variable is replaced by the block, the second is deleted, and of the two bodies that
  use a variable only the one without the declaration gets it.
\<close>

theorem new_namespace_edits_witness:
  "getMoveAllVariablesToNamespaceQuickFix templateEnv [] ''Move all variables to namespace''
       ''erc7201'' ''Foo'' [variableX, variableY] (document ledgerTree)
     = Inr (Some \<lparr> title = ''Move all variables to namespace'', kind = QuickFix,
                 edit = [(''file:///Foo.sol'',
                          [\<lparr> editRange = (62, 63), newText = ''$.x'' \<rparr>,
                           \<lparr> editRange = (60, 61),
                             newText = ''{'' @ [CHR 0x0A]
                               @ ''        FooStorage storage $ = _getFooStorage();''
                               @ [CHR 0x0A] \<rparr>,
                           \<lparr> editRange = (173, 174), newText = ''$.y'' \<rparr>,
                           \<lparr> editRange = (15, 25),
                             newText =
                               ''/// @custom:storage-location erc7201:erc7201.storage.Foo''
                               @ [CHR 0x0A] @ ''    struct FooStorage {''
                               @ [CHR 0x0A] @ ''        uint256 x;''
                               @ [CHR 0x0A] @ ''        uint256 y;''
                               @ [CHR 0x0A] @ ''    }''
                               @ [CHR 0x0A, CHR 0x0A]
                               @ ''    // keccak256(abi.encode(uint256(keccak256(''
                               @ [CHR 0x22] @ ''erc7201.storage.Foo'' @ [CHR 0x22]
                               @ '')) - 1)) & ~bytes32(uint256(0xff)) = ''
                               @ ''0xf2eacd0d8c40359509ad29d2b0d1d490123f1f694be8e963bad33c39476cd600''
                               @ [CHR 0x0A]
                               @ ''    function _getFooStorage() internal pure returns (FooStorage storage $) {''
                               @ [CHR 0x0A] @ ''        assembly {''
                               @ [CHR 0x0A] @ ''            $.slot := ''
                               @ ''0xf2eacd0d8c40359509ad29d2b0d1d490123f1f694be8e963bad33c39476cd600''
                               @ [CHR 0x0A] @ ''        }''
                               @ [CHR 0x0A] @ ''    }'' \<rparr>,
                           \<lparr> editRange = (26, 36), newText = [] \<rparr>])],
                 diagnostics = [] \<rparr>)
   \<and> map (\<lambda>b. storagePointerCount ''Foo''
                  (bodyEdits ''Foo'' [variableX, variableY] (document ledgerTree) b))
       (bodies (contractDefinition ''Foo''
                  [stateVariable ''x'', stateVariable ''y'',
                   functionDefinition ''bump'' [incrementStatement ''x''],
                   functionDefinition ''idle'' [incrementStatement ''z''],
                   functionDefinition ''step''
                     [storagePointerStatement, incrementStatement ''y'']], (0, 184)))
     = [1, 0, 0]"
proof -
  let ?contract = "(contractDefinition ''Foo''
       [stateVariable ''x'', stateVariable ''y'',
        functionDefinition ''bump'' [incrementStatement ''x''],
        functionDefinition ''idle'' [incrementStatement ''z''],
        functionDefinition ''step'' [storagePointerStatement, incrementStatement ''y'']],
       (0, 184))"
  have c: "targetContract templateEnv ''Foo'' (document ledgerTree) = Some ?contract"
    by code_simp
  have a: "contractsNamed templateEnv (contracts templateEnv (document ledgerTree))"
    by code_simp
  have n: "namespaceStructEnd ''erc7201'' ''Foo'' ?contract = None"
    by code_simp
  have b: "bracesPresent ''Foo'' [variableX, variableY] (bodies ?contract)"
    by code_simp
  have h: "printNamespaceTemplate templateEnv = namespaceTemplate"
    by (simp add: templateEnv_def)
  have e: "concat (map (bodyEdits ''Foo'' [variableX, variableY] (document ledgerTree))
                     (bodies ?contract))
      = [\<lparr> editRange = (62, 63), newText = ''$.x'' \<rparr>,
         \<lparr> editRange = (60, 61),
           newText = ''{'' @ [CHR 0x0A] @ ''        FooStorage storage $ = _getFooStorage();''
             @ [CHR 0x0A] \<rparr>,
         \<lparr> editRange = (173, 174), newText = ''$.y'' \<rparr>]"
    by code_simp
  have r: "map (\<lambda>b. if referencesVariables [variableX, variableY] b
                       \<and> \<not> hasStoragePointer ''Foo'' b then 1 else 0) (bodies ?contract)
      = [1, 0, 0 :: nat]"
    by code_simp
  have p: "namespaceTemplate
             \<lparr> nsContractName = ''Foo'', nsPrefix = ''erc7201'',
               nsVariables = [variableX, variableY] \<rparr>
      = ''/// @custom:storage-location erc7201:erc7201.storage.Foo''
          @ [CHR 0x0A] @ ''    struct FooStorage {''
          @ [CHR 0x0A] @ ''        uint256 x;''
          @ [CHR 0x0A] @ ''        uint256 y;''
          @ [CHR 0x0A] @ ''    }''
          @ [CHR 0x0A, CHR 0x0A]
          @ ''    // keccak256(abi.encode(uint256(keccak256(''
          @ [CHR 0x22] @ ''erc7201.storage.Foo'' @ [CHR 0x22]
          @ '')) - 1)) & ~bytes32(uint256(0xff)) = ''
          @ ''0xf2eacd0d8c40359509ad29d2b0d1d490123f1f694be8e963bad33c39476cd600''
          @ [CHR 0x0A]
          @ ''    function _getFooStorage() internal pure returns (FooStorage storage $) {''
          @ [CHR 0x0A] @ ''        assembly {''
          @ [CHR 0x0A] @ ''            $.slot := ''
          @ ''0xf2eacd0d8c40359509ad29d2b0d1d490123f1f694be8e963bad33c39476cd600''
          @ [CHR 0x0A] @ ''        }''
          @ [CHR 0x0A] @ ''    }''"
    by (simp add: namespaceTemplate_def getNamespaceId_def toStorageStructName_def
          example_namespace_slot formatIdComment_def formatHashComment_def printStruct_def
          structField_def printAccessor_def indent_def variableX_def variableY_def)
  have v: "varRange variableX = (15, 25)" "varRange variableY = (26, 36)"
    by (simp_all add: variableX_def variableY_def)
  have u: "uri (document ledgerTree) = ''file:///Foo.sol''" by (simp add: document_def)
  note t = new_namespace_edits [OF a c n b refl h, where fixesDiagnostics = "[]"
      and t = "''Move all variables to namespace''"]
  from t [THEN conjunct1] t [THEN conjunct2, THEN conjunct1]
  show ?thesis unfolding e p u r by (simp add: v)
qed

subsection \<open>The bodies of the contract\<close>

text \<open>
  Claim C6. \<^verbatim>\<open>addStorageGetter\<close>, called for a body whose block has an opening brace at
  \<open>r\<close>, pushes nothing when the text of the block contains the declaration of the storage
  pointer, and otherwise pushes one edit: the brace is replaced by the brace, a line break
  and the declaration on a line of its own, which puts the declaration right after the
  brace. In the fix as a whole, the edits of the bodies are those of \<open>bodyEdits\<close>; for a
  body with a rewritten identifier they are the rewrites followed by that one edit exactly
  when the body's text does not contain the declaration. A body that has the declaration
  gets no second one.
\<close>

theorem storage_pointer_iff_absent:
  "(openBraceOf (cur c) = Some r \<longrightarrow>
      addStorageGetter contractName (fst (cur c)) c edits textDocument
        = Inr (if includesStr (unparse (fst (cur c))) (expectedLine contractName) then edits
               else edits @ [\<lparr> editRange = slangToVSCodeRange textDocument r,
                               newText = ''{'' @ [CHR 0x0A] @ indent @ indent
                                 @ expectedLine contractName @ [CHR 0x0A] \<rparr>]))
   \<and> (bracesPresent contractName variables (bodies (cur c)) \<longrightarrow>
      editNamespaceVariablesInFunctions c contractName variables textDocument edits
        = Inr (edits @ concat (map (bodyEdits contractName variables textDocument)
                                (bodies (cur c)))))
   \<and> (referencesVariables variables b \<longrightarrow> openBraceOf b = Some r \<longrightarrow>
      bodyEdits contractName variables textDocument b
        = identifierEdits variables textDocument b
          @ (if includesStr (unparse (fst b)) (expectedLine contractName) then []
             else [\<lparr> editRange = slangToVSCodeRange textDocument r,
                     newText = ''{'' @ [CHR 0x0A] @ indent @ indent
                       @ expectedLine contractName @ [CHR 0x0A] \<rparr>])
      \<and> storagePointerCount contractName (bodyEdits contractName variables textDocument b)
          = (if includesStr (unparse (fst b)) (expectedLine contractName) then 0 else 1))"
proof (intro conjI impI)
  assume "openBraceOf (cur c) = Some r"
  then show "addStorageGetter contractName (fst (cur c)) c edits textDocument
        = Inr (if includesStr (unparse (fst (cur c))) (expectedLine contractName) then edits
               else edits @ [\<lparr> editRange = slangToVSCodeRange textDocument r,
                               newText = ''{'' @ [CHR 0x0A] @ indent @ indent
                                 @ expectedLine contractName @ [CHR 0x0A] \<rparr>])"
    by (simp add: addStorageGetter_eq hasStoragePointer_def storagePointerEdit_def)
next
  assume "bracesPresent contractName variables (bodies (cur c))"
  then show "editNamespaceVariablesInFunctions c contractName variables textDocument edits
        = Inr (edits @ concat (map (bodyEdits contractName variables textDocument)
                                (bodies (cur c))))"
    by (simp add: editNamespaceVariablesInFunctions_eq)
next
  assume "referencesVariables variables b" and "openBraceOf b = Some r"
  then show "bodyEdits contractName variables textDocument b
        = identifierEdits variables textDocument b
          @ (if includesStr (unparse (fst b)) (expectedLine contractName) then []
             else [\<lparr> editRange = slangToVSCodeRange textDocument r,
                     newText = ''{'' @ [CHR 0x0A] @ indent @ indent
                       @ expectedLine contractName @ [CHR 0x0A] \<rparr>])"
    by (simp add: bodyEdits_def needsStoragePointer_def hasStoragePointer_def
          storagePointerEdit_def)
next
  assume "referencesVariables variables b" and "openBraceOf b = Some r"
  then show "storagePointerCount contractName (bodyEdits contractName variables textDocument b)
          = (if includesStr (unparse (fst b)) (expectedLine contractName) then 0 else 1)"
    using bodyEdits_pointer_count [of contractName variables b textDocument]
    by (simp add: needsStoragePointer_def hasStoragePointer_def)
qed

text \<open>
  The theorem of C6 at two bodies: the body of the first example gets the declaration at
  its opening brace, the body that has the declaration already gets only the rewrite.
\<close>

theorem storage_pointer_iff_absent_witness:
  "addStorageGetter ''Foo'' (fst (cur (firstBodyCursor counterTree)))
       (firstBodyCursor counterTree) [] (document counterTree)
     = Inr [\<lparr> editRange = (49, 50),
              newText = ''{'' @ [CHR 0x0A] @ ''        FooStorage storage $ = _getFooStorage();''
                @ [CHR 0x0A] \<rparr>]
   \<and> addStorageGetter ''Foo'' (fst (cur (firstBodyCursor migratedBodyTree)))
       (firstBodyCursor migratedBodyTree) [] (document migratedBodyTree)
     = Inr []
   \<and> editNamespaceVariablesInFunctions (contractCursor migratedBodyTree) ''Foo'' [variableX]
       (document migratedBodyTree) []
     = Inr [\<lparr> editRange = (92, 93), newText = ''$.x'' \<rparr>]"
proof -
  have o1: "openBraceOf (cur (firstBodyCursor counterTree)) = Some (49, 50)" by code_simp
  have o2: "openBraceOf (cur (firstBodyCursor migratedBodyTree)) = Some (49, 50)" by code_simp
  have i1: "\<not> includesStr (unparse (fst (cur (firstBodyCursor counterTree)))) (expectedLine ''Foo'')"
    by code_simp
  have i2: "includesStr (unparse (fst (cur (firstBodyCursor migratedBodyTree))))
              (expectedLine ''Foo'')"
    by code_simp
  have t: "''{'' @ [CHR 0x0A] @ indent @ indent @ expectedLine ''Foo'' @ [CHR 0x0A]
      = ''{'' @ [CHR 0x0A] @ ''        FooStorage storage $ = _getFooStorage();'' @ [CHR 0x0A]"
    by code_simp
  have b: "bracesPresent ''Foo'' [variableX] (bodies (cur (contractCursor migratedBodyTree)))"
    by code_simp
  have e: "concat (map (bodyEdits ''Foo'' [variableX] (document migratedBodyTree))
                     (bodies (cur (contractCursor migratedBodyTree))))
      = [\<lparr> editRange = (92, 93), newText = ''$.x'' \<rparr>]"
    by code_simp
  from storage_pointer_iff_absent [where c = "firstBodyCursor counterTree" and r = "(49, 50)"
      and contractName = "''Foo''" and edits = "[]" and textDocument = "document counterTree"]
    o1 i1 t
  have 1: "addStorageGetter ''Foo'' (fst (cur (firstBodyCursor counterTree)))
       (firstBodyCursor counterTree) [] (document counterTree)
     = Inr [\<lparr> editRange = (49, 50),
              newText = ''{'' @ [CHR 0x0A] @ ''        FooStorage storage $ = _getFooStorage();''
                @ [CHR 0x0A] \<rparr>]"
    by (simp add: slangToVSCodeRange_def)
  from storage_pointer_iff_absent [where c = "firstBodyCursor migratedBodyTree"
      and r = "(49, 50)" and contractName = "''Foo''" and edits = "[]"
      and textDocument = "document migratedBodyTree"] o2 i2
  have 2: "addStorageGetter ''Foo'' (fst (cur (firstBodyCursor migratedBodyTree)))
       (firstBodyCursor migratedBodyTree) [] (document migratedBodyTree) = Inr []"
    by simp
  from storage_pointer_iff_absent [where c = "contractCursor migratedBodyTree"
      and contractName = "''Foo''" and edits = "[]" and variables = "[variableX]"
      and textDocument = "document migratedBodyTree"] b e
  have 3: "editNamespaceVariablesInFunctions (contractCursor migratedBodyTree) ''Foo'' [variableX]
       (document migratedBodyTree) []
     = Inr [\<lparr> editRange = (92, 93), newText = ''$.x'' \<rparr>]"
    by simp
  from 1 2 3 show ?thesis by simp
qed

subsection \<open>No variables, one action\<close>

text \<open>
  Claim C8. With an empty list of variables the fix never returns an action, and it
  returns \<^verbatim>\<open>undefined\<close> whenever every contract of the document that parses has a name.
  With a non-empty list, an action that is returned is the one action of the call: it
  holds, under the document's uri, all the edits the loop over the contracts has pushed,
  followed by all the edits of the namespace.
\<close>

theorem no_variables_no_action:
  "(contractsNamed env (contracts env textDocument) \<longrightarrow>
      getMoveAllVariablesToNamespaceQuickFix env fixesDiagnostics t prefix contractName []
        textDocument = Inr None)
   \<and> getMoveAllVariablesToNamespaceQuickFix env fixesDiagnostics t prefix contractName []
        textDocument \<noteq> Inr (Some a)
   \<and> (variables \<noteq> [] \<longrightarrow>
      getMoveAllVariablesToNamespaceQuickFix env fixesDiagnostics t prefix contractName variables
        textDocument = Inr (Some a) \<longrightarrow>
      (\<exists>structEnd edits.
         contractsLoop env prefix contractName variables textDocument
           (createTreeCursor (parseSourceUnit env (getText textDocument))) []
           = Inr (structEnd, edits)
         \<and> a = \<lparr> title = t, kind = QuickFix,
                 edit = [(uri textDocument,
                          edits @ namespaceEdits env prefix contractName textDocument variables
                                    structEnd)],
                 diagnostics = fixesDiagnostics \<rparr>))"
proof (intro conjI impI)
  assume "contractsNamed env (contracts env textDocument)"
  from quickFix_document [OF this, of fixesDiagnostics t prefix contractName "[]"]
  show "getMoveAllVariablesToNamespaceQuickFix env fixesDiagnostics t prefix contractName []
        textDocument = Inr None"
    by (simp add: bracesPresent_no_variables split: option.splits)
next
  show "getMoveAllVariablesToNamespaceQuickFix env fixesDiagnostics t prefix contractName []
        textDocument \<noteq> Inr (Some a)"
    by (simp add: getMoveAllVariablesToNamespaceQuickFix_def split: sum.splits prod.splits)
next
  assume v: "variables \<noteq> []"
    and r: "getMoveAllVariablesToNamespaceQuickFix env fixesDiagnostics t prefix contractName
        variables textDocument = Inr (Some a)"
  let ?loop = "contractsLoop env prefix contractName variables textDocument
           (createTreeCursor (parseSourceUnit env (getText textDocument))) []"
  from r obtain structEnd edits where l: "?loop = Inr (structEnd, edits)"
    by (cases ?loop) (auto simp: getMoveAllVariablesToNamespaceQuickFix_def)
  from quickFix_of_loop [OF l, of fixesDiagnostics t] v r
  have "a = \<lparr> title = t, kind = QuickFix,
                 edit = [(uri textDocument,
                          edits @ namespaceEdits env prefix contractName textDocument variables
                                    structEnd)],
                 diagnostics = fixesDiagnostics \<rparr>"
    by simp
  with l show "\<exists>structEnd edits. ?loop = Inr (structEnd, edits)
         \<and> a = \<lparr> title = t, kind = QuickFix,
                 edit = [(uri textDocument,
                          edits @ namespaceEdits env prefix contractName textDocument variables
                                    structEnd)],
                 diagnostics = fixesDiagnostics \<rparr>"
    by blast
qed

text \<open>
  The theorem of C8 at the first example: no variables, no action; with the variable
  \<^verbatim>\<open>x\<close> the one action has the edits of the loop and then the edit of the namespace.
\<close>

theorem no_variables_no_action_witness:
  "getMoveAllVariablesToNamespaceQuickFix exampleEnv [] ''Move all variables to namespace''
       ''erc7201'' ''Foo'' [] (document counterTree) = Inr None
   \<and> contractsLoop exampleEnv ''erc7201'' ''Foo'' [variableX] (document counterTree)
        (createTreeCursor (parseSourceUnit exampleEnv (getText (document counterTree)))) []
     = Inr (None,
            [\<lparr> editRange = (51, 52), newText = ''$.x'' \<rparr>,
             \<lparr> editRange = (49, 50),
               newText = ''{'' @ [CHR 0x0A] @ ''        FooStorage storage $ = _getFooStorage();''
                 @ [CHR 0x0A] \<rparr>])"
proof -
  let ?a = "\<lparr> title = ''Move all variables to namespace'', kind = QuickFix,
                 edit = [(''file:///Foo.sol'',
                          [\<lparr> editRange = (51, 52), newText = ''$.x'' \<rparr>,
                           \<lparr> editRange = (49, 50),
                             newText = ''{'' @ [CHR 0x0A]
                               @ ''        FooStorage storage $ = _getFooStorage();''
                               @ [CHR 0x0A] \<rparr>,
                           \<lparr> editRange = (15, 25),
                             newText = ''/// @custom:storage-location erc7201:erc7201.storage.Foo''
                               @ [CHR 0x0A] @ ''struct FooStorage { uint256 x; }'' \<rparr>])],
                 diagnostics = [] \<rparr>"
  have n: "contractsNamed exampleEnv (contracts exampleEnv (document counterTree))"
    by code_simp
  have r: "getMoveAllVariablesToNamespaceQuickFix exampleEnv []
       ''Move all variables to namespace'' ''erc7201'' ''Foo'' [variableX] (document counterTree)
     = Inr (Some ?a)"
    by code_simp
  have l: "contractsLoop exampleEnv ''erc7201'' ''Foo'' [variableX] (document counterTree)
        (createTreeCursor (parseSourceUnit exampleEnv (getText (document counterTree)))) []
     = Inr (None,
            [\<lparr> editRange = (51, 52), newText = ''$.x'' \<rparr>,
             \<lparr> editRange = (49, 50),
               newText = ''{'' @ [CHR 0x0A] @ ''        FooStorage storage $ = _getFooStorage();''
                 @ [CHR 0x0A] \<rparr>])"
    by code_simp
  from no_variables_no_action [where env = exampleEnv and textDocument = "document counterTree"
      and fixesDiagnostics = "[]" and t = "''Move all variables to namespace''"
      and prefix = "''erc7201''" and contractName = "''Foo''" and variables = "[variableX]"
      and a = ?a] n r
  have "getMoveAllVariablesToNamespaceQuickFix exampleEnv [] ''Move all variables to namespace''
       ''erc7201'' ''Foo'' [] (document counterTree) = Inr None"
    by blast
  with l show ?thesis by simp
qed

subsection \<open>The end of the namespace struct\<close>

text \<open>
  Claim C9. On a contract, \<^verbatim>\<open>getNamespaceStructEndRange\<close> looks at the first single-line
  NatSpec comment among all the tokens of the contract. It returns a range exactly when
  there is such a comment and its text contains the storage-location tag of the
  namespace of prefix and contract name; the range is then that of the first closing
  brace among all the tokens of the contract (\<open>namespaceStructEnd\<close>), whichever
  construct that brace closes.
\<close>

theorem struct_end_is_first_closing_brace:
  assumes "isContract (cur c)"
  shows "getNamespaceStructEndRange c prefix contractName
           = namespaceStructEnd prefix contractName (cur c)
   \<and> (namespaceStructEnd prefix contractName (cur c) \<noteq> None
        \<longleftrightarrow> (\<exists>comment. firstTerminal SingleLineNatSpecComment (cur c) = Some comment
               \<and> includesStr (unparse (fst comment))
                     (''@custom:storage-location erc7201:''
                        @ getNamespaceId prefix contractName)))
   \<and> (firstTerminal CloseBrace (cur c) = Some brace \<longrightarrow>
        namespaceStructEnd prefix contractName (cur c) \<noteq> None \<longrightarrow>
        getNamespaceStructEndRange c prefix contractName = Some (snd brace))"
proof -
  from assms obtain k cs where "fst (cur c) = NonterminalNode k cs"
    by (cases "fst (cur c)") (auto simp: isContract_def)
  then have e: "getNamespaceStructEndRange c prefix contractName
           = namespaceStructEnd prefix contractName (cur c)"
    by (rule getNamespaceStructEndRange_eq)
  show ?thesis
    unfolding e
    by (auto simp: namespaceStructEnd_def storageLocationTag_def
          split: option.splits if_splits)
qed

text \<open>
  The theorem of C9 at a contract whose function comes before the annotated struct: the
  closing braces of the contract are those of the function's body, of the struct and of
  the contract, in this order, and the range returned is the first, the end of the
  function's body.
\<close>

theorem struct_end_is_first_closing_brace_witness:
  "map snd (filter (\<lambda>x. isTerminalWithKind CloseBrace (fst x))
              (descendants 0 functionFirstTree))
     = [(37, 38), (128, 129), (130, 131)]
   \<and> getNamespaceStructEndRange (contractCursor functionFirstTree) ''erc7201'' ''Foo''
     = Some (37, 38)"
proof -
  have a: "isContract (cur (contractCursor functionFirstTree))" by code_simp
  have b: "firstTerminal CloseBrace (cur (contractCursor functionFirstTree))
      = Some (TerminalNode CloseBrace ''}'', (37, 38))" by code_simp
  have n: "namespaceStructEnd ''erc7201'' ''Foo'' (cur (contractCursor functionFirstTree)) \<noteq> None"
    by code_simp
  have l: "map snd (filter (\<lambda>x. isTerminalWithKind CloseBrace (fst x))
              (descendants 0 functionFirstTree))
     = [(37, 38), (128, 129), (130, 131)]" by code_simp
  note t = struct_end_is_first_closing_brace [OF a, of "''erc7201''" "''Foo''"
      "(TerminalNode CloseBrace ''}'', (37, 38))"]
  from t [THEN conjunct2, THEN conjunct2] b n
  have "getNamespaceStructEndRange (contractCursor functionFirstTree) ''erc7201'' ''Foo''
     = Some (37, 38)"
    by simp
  with l show ?thesis by blast
qed

subsection \<open>Rewritten identifiers\<close>

lemma set_prefix_of_append: "set xs \<subseteq> set (xs @ ys)"
  by simp

text \<open>
  Claim C10. \<^verbatim>\<open>replaceVariables\<close> pushes, for every identifier token inside the block
  whose text is the name of one of the variables, in document order, one edit that
  replaces the token by \<^verbatim>\<open>$.\<close> and its text; only the kind of the token and its text
  are looked at. The flag it returns is true exactly when there is such a token. In the
  fix as a whole, every such edit of every body of the contract is among the edits
  returned.
\<close>

theorem every_matching_identifier_rewritten:
  "replaceVariables blockCursor variables edits textDocument
     = Inr (list_ex (\<lambda>x. isTerminalWithKind Identifier (fst x)
                          \<and> unparse (fst x) \<in> set (map name variables))
              (descendants (fst (snd (cur blockCursor))) (fst (cur blockCursor))),
            edits
            @ map (\<lambda>x. \<lparr> editRange = slangToVSCodeRange textDocument (snd x),
                          newText = ''$.'' @ unparse (fst x) \<rparr>)
                (filter (\<lambda>x. isTerminalWithKind Identifier (fst x)
                               \<and> unparse (fst x) \<in> set (map name variables))
                   (descendants (fst (snd (cur blockCursor))) (fst (cur blockCursor)))))
   \<and> (bracesPresent contractName variables (bodies (cur c)) \<longrightarrow>
        (\<exists>es. editNamespaceVariablesInFunctions c contractName variables textDocument edits
                = Inr es
              \<and> (\<forall>b \<in> set (bodies (cur c)).
                    set (identifierEdits variables textDocument b) \<subseteq> set es)))"
proof (intro conjI impI)
  have m: "identifierMatches variables
      = (\<lambda>x. isTerminalWithKind Identifier (fst x) \<and> unparse (fst x) \<in> set (map name variables))"
    by (simp add: identifierMatches_def fun_eq_iff)
  have r: "rewriteEdit textDocument
      = (\<lambda>x. \<lparr> editRange = slangToVSCodeRange textDocument (snd x),
                newText = ''$.'' @ unparse (fst x) \<rparr>)"
    by (simp add: rewriteEdit_def fun_eq_iff)
  have l: "(filter P xs \<noteq> []) = list_ex P xs" for P :: "Node \<times> TextRange \<Rightarrow> bool" and xs
    by (simp add: filter_empty_conv list_ex_iff)
  show "replaceVariables blockCursor variables edits textDocument
     = Inr (list_ex (\<lambda>x. isTerminalWithKind Identifier (fst x)
                          \<and> unparse (fst x) \<in> set (map name variables))
              (descendants (fst (snd (cur blockCursor))) (fst (cur blockCursor))),
            edits
            @ map (\<lambda>x. \<lparr> editRange = slangToVSCodeRange textDocument (snd x),
                          newText = ''$.'' @ unparse (fst x) \<rparr>)
                (filter (\<lambda>x. isTerminalWithKind Identifier (fst x)
                               \<and> unparse (fst x) \<in> set (map name variables))
                   (descendants (fst (snd (cur blockCursor))) (fst (cur blockCursor)))))"
    unfolding replaceVariables_eq referencesVariables_def identifierEdits_def l
    unfolding m r ..
next
  assume "bracesPresent contractName variables (bodies (cur c))"
  then have "editNamespaceVariablesInFunctions c contractName variables textDocument edits
      = Inr (edits @ concat (map (bodyEdits contractName variables textDocument)
                              (bodies (cur c))))"
    by (simp add: editNamespaceVariablesInFunctions_eq)
  moreover have "\<forall>b \<in> set (bodies (cur c)).
      set (identifierEdits variables textDocument b)
        \<subseteq> set (edits @ concat (map (bodyEdits contractName variables textDocument)
                                 (bodies (cur c))))"
  proof
    fix b assume b: "b \<in> set (bodies (cur c))"
    have "set (identifierEdits variables textDocument b)
        \<subseteq> set (bodyEdits contractName variables textDocument b)"
      unfolding bodyEdits_def by (rule set_prefix_of_append)
    also have "\<dots> \<subseteq> set (concat (map (bodyEdits contractName variables textDocument)
                                    (bodies (cur c))))"
      using b by auto
    finally show "set (identifierEdits variables textDocument b)
        \<subseteq> set (edits @ concat (map (bodyEdits contractName variables textDocument)
                                 (bodies (cur c))))"
      by auto
  qed
  ultimately show "\<exists>es. editNamespaceVariablesInFunctions c contractName variables textDocument
                     edits = Inr es
              \<and> (\<forall>b \<in> set (bodies (cur c)).
                    set (identifierEdits variables textDocument b) \<subseteq> set es)"
    by blast
qed

text \<open>
  The theorem of C10 at the body that declares the pointer and then uses \<^verbatim>\<open>x\<close>: with
  the variables \<^verbatim>\<open>x\<close> and \<^verbatim>\<open>FooStorage\<close> both identifiers are rewritten, also the one
  that names a type.
\<close>

theorem every_matching_identifier_rewritten_witness:
  "replaceVariables (firstBodyCursor migratedBodyTree)
       [variableX, variableX\<lparr> name := ''FooStorage'' \<rparr>] [] (document migratedBodyTree)
     = Inr (True, [\<lparr> editRange = (51, 61), newText = ''$.FooStorage'' \<rparr>,
                   \<lparr> editRange = (92, 93), newText = ''$.x'' \<rparr>])
   \<and> editNamespaceVariablesInFunctions (contractCursor counterTree) ''Foo'' [variableX]
       (document counterTree) []
     = Inr [\<lparr> editRange = (51, 52), newText = ''$.x'' \<rparr>,
            \<lparr> editRange = (49, 50),
              newText = ''{'' @ [CHR 0x0A] @ ''        FooStorage storage $ = _getFooStorage();''
                @ [CHR 0x0A] \<rparr>]"
proof -
  let ?vs = "[variableX, variableX\<lparr> name := ''FooStorage'' \<rparr>]"
  let ?P = "\<lambda>x. isTerminalWithKind Identifier (fst x) \<and> unparse (fst x) \<in> set (map name ?vs)"
  let ?ds = "descendants (fst (snd (cur (firstBodyCursor migratedBodyTree))))
               (fst (cur (firstBodyCursor migratedBodyTree)))"
  have f: "list_ex ?P ?ds" by code_simp
  have e: "map (\<lambda>x. \<lparr> editRange = slangToVSCodeRange (document migratedBodyTree) (snd x),
                          newText = ''$.'' @ unparse (fst x) \<rparr>) (filter ?P ?ds)
      = [\<lparr> editRange = (51, 61), newText = ''$.FooStorage'' \<rparr>,
         \<lparr> editRange = (92, 93), newText = ''$.x'' \<rparr>]"
    by code_simp
  have b: "bracesPresent ''Foo'' [variableX] (bodies (cur (contractCursor counterTree)))"
    by code_simp
  have r: "editNamespaceVariablesInFunctions (contractCursor counterTree) ''Foo'' [variableX]
       (document counterTree) []
     = Inr [\<lparr> editRange = (51, 52), newText = ''$.x'' \<rparr>,
            \<lparr> editRange = (49, 50),
              newText = ''{'' @ [CHR 0x0A] @ ''        FooStorage storage $ = _getFooStorage();''
                @ [CHR 0x0A] \<rparr>]"
    by code_simp
  note t = every_matching_identifier_rewritten [where blockCursor = "firstBodyCursor migratedBodyTree"
      and variables = ?vs and edits = "[]" and textDocument = "document migratedBodyTree"]
  from t [THEN conjunct1] f e
  have "replaceVariables (firstBodyCursor migratedBodyTree) ?vs [] (document migratedBodyTree)
     = Inr (True, [\<lparr> editRange = (51, 61), newText = ''$.FooStorage'' \<rparr>,
                   \<lparr> editRange = (92, 93), newText = ''$.x'' \<rparr>])"
    by simp
  with r show ?thesis by blast
qed

subsection \<open>Insertions into an existing struct\<close>

text \<open>
  Claim C2, at a contract with a namespace struct and two variables to move: the fix
  returns four edits, and the two that put the declarations of \<^verbatim>\<open>x\<close> and \<^verbatim>\<open>y\<close> into
  the struct both replace the same closing brace, at (104, 105). The ranges of the edits
  overlap.
\<close>

theorem struct_insertions_overlap:
  "getMoveAllVariablesToNamespaceQuickFix exampleEnv [] ''Move all variables to namespace''
       ''erc7201'' ''Foo'' [structVariableX, structVariableY] (document existingStructTree)
     = Inr (Some \<lparr> title = ''Move all variables to namespace'', kind = QuickFix,
                 edit = [(''file:///Foo.sol'',
                          [\<lparr> editRange = (106, 116), newText = [] \<rparr>,
                           \<lparr> editRange = (104, 105),
                             newText = ''    uint256 x;'' @ [CHR 0x0A] @ ''    }'' \<rparr>,
                           \<lparr> editRange = (117, 127), newText = [] \<rparr>,
                           \<lparr> editRange = (104, 105),
                             newText = ''    uint256 y;'' @ [CHR 0x0A] @ ''    }'' \<rparr>])],
                 diagnostics = [] \<rparr>)
   \<and> \<not> nonOverlapping [(106, 116), (104, 105), (117, 127), (104, 105)]"
  by code_simp

subsection \<open>The slot hash\<close>

lemma numberOf_decrement:
  "numberOf (decrement bs) + 1 = numberOf bs + (if list_all Not bs then 2 ^ length bs else 0)"
  by (induction bs rule: decrement.induct) auto

lemma uint256_decrement:
  assumes "length bs = 256"
  shows "uint256 (decrement bs) = uint256 bs - 1"
proof -
  have z: "(2 :: 256 word) ^ 256 = 0" by simp
  have "(of_nat (numberOf (decrement bs) + 1) :: 256 word)
      = of_nat (numberOf bs + (if list_all Not bs then 2 ^ length bs else 0))"
    by (simp only: numberOf_decrement)
  then have "1 + uint256 (decrement bs) = uint256 bs"
    using assms z by (simp add: uint256_def split: if_splits)
  then show ?thesis by (simp add: algebra_simps eq_diff_eq)
qed

lemma numberOf_append: "numberOf (xs @ ys) = numberOf xs + 2 ^ length xs * numberOf ys"
  by (induction xs) (auto simp: algebra_simps)

lemma numberOf_replicate_False: "numberOf (replicate n False) = 0"
  by (induction n) auto

lemma numberOf_bound: "numberOf bs < 2 ^ length bs"
  by (induction bs) auto

lemma numberOf_clearLowByte: "numberOf (clearLowByte bs) = 256 * (numberOf bs div 256)"
proof -
  have "numberOf bs = numberOf (take 8 bs) + 2 ^ length (take 8 bs) * numberOf (drop 8 bs)"
    using numberOf_append [of "take 8 bs" "drop 8 bs"] by simp
  show ?thesis
  proof (cases "8 \<le> length bs")
    case True
    then have l: "length (take 8 bs) = 8" by simp
    have b: "numberOf (take 8 bs) < 256" using numberOf_bound [of "take 8 bs"] l by simp
    have "numberOf bs = numberOf (take 8 bs) + 256 * numberOf (drop 8 bs)"
      using numberOf_append [of "take 8 bs" "drop 8 bs"] l by simp
    with b have "numberOf bs div 256 = numberOf (drop 8 bs)" by simp
    then show ?thesis
      by (simp add: clearLowByte_def numberOf_append numberOf_replicate_False)
  next
    case False
    then have "numberOf bs < 2 ^ 8"
      using numberOf_bound [of bs] power_strict_increasing [of "length bs" 8 "2::nat"]
      by (metis less_trans not_le numeral_One numeral_less_iff semiring_norm(76))
    with False show ?thesis
      by (simp add: clearLowByte_def numberOf_append numberOf_replicate_False)
  qed
qed

lemma m8: "(0xff :: 256 word) = mask 8"
  by (simp add: mask_eq_exp_minus_1)

lemma w2: "(of_nat (push_bit 8 (drop_bit 8 n)) :: 256 word) = of_nat n AND NOT (mask 8)"
  by (rule bit_eqI) (auto simp: bit_simps)

lemma w3: "(256::nat) * (n div 256) = push_bit 8 (drop_bit 8 n)"
  by (simp add: push_bit_eq_mult drop_bit_eq_div)

lemma uint256_clearLowByte: "uint256 (clearLowByte bs) = uint256 bs AND NOT 0xff"
  unfolding uint256_def numberOf_clearLowByte w3 w2 m8 ..

lemma length_xorLane: "length (xorLane a b) = min (length a) (length b)"
  by (induction a b rule: xorLane.induct) auto

lemma length_chiLane: "length (chiLane a b c) = min (length a) (min (length b) (length c))"
  by (induction a b c rule: chiLane.induct) auto

lemma length_rotl: "length (rotl n w) = length w"
  by (auto simp: rotl_def)

lemma length_xorLanes: "length (xorLanes a b) = min (length a) (length b)"
  by (induction a b rule: xorLanes.induct) auto

lemma wellFormed_xorLanes: "wellFormed a \<Longrightarrow> wellFormed b \<Longrightarrow> wellFormed (xorLanes a b)"
  by (induction a b rule: xorLanes.induct) (auto simp: wellFormed_def length_xorLane)

lemma state_elements:
  assumes "length (a :: 'a list) = 25"
  obtains a0 a1 a2 a3 a4 a5 a6 a7 a8 a9 a10 a11 a12 a13 a14 a15 a16 a17 a18 a19 a20 a21 a22
    a23 a24
  where "a = [a0, a1, a2, a3, a4, a5, a6, a7, a8, a9, a10, a11, a12, a13, a14, a15, a16, a17,
              a18, a19, a20, a21, a22, a23, a24]"
  using assms by (auto simp: numeral_eq_Suc length_Suc_conv)

lemma wellFormed_theta:
  assumes "length a = 25" and "wellFormed a"
  shows "length (theta a) = 25 \<and> wellFormed (theta a)"
proof -
  from assms(1) obtain a0 a1 a2 a3 a4 a5 a6 a7 a8 a9 a10 a11 a12 a13 a14 a15 a16 a17 a18 a19
      a20 a21 a22 a23 a24
    where "a = [a0, a1, a2, a3, a4, a5, a6, a7, a8, a9, a10, a11, a12, a13, a14, a15, a16, a17,
              a18, a19, a20, a21, a22, a23, a24]"
    by (rule state_elements)
  with assms(2) show ?thesis
    by (simp add: theta_def thetaApply_def wellFormed_def length_xorLane length_rotl)
qed

lemma wellFormed_rhoPi:
  assumes "length a = 25" and "wellFormed a"
  shows "length (rhoPi a) = 25 \<and> wellFormed (rhoPi a)"
proof -
  from assms(1) obtain a0 a1 a2 a3 a4 a5 a6 a7 a8 a9 a10 a11 a12 a13 a14 a15 a16 a17 a18 a19
      a20 a21 a22 a23 a24
    where "a = [a0, a1, a2, a3, a4, a5, a6, a7, a8, a9, a10, a11, a12, a13, a14, a15, a16, a17,
              a18, a19, a20, a21, a22, a23, a24]"
    by (rule state_elements)
  with assms(2) show ?thesis
    by (simp add: wellFormed_def length_rotl)
qed

lemma wellFormed_chi:
  assumes "length a = 25" and "wellFormed a"
  shows "length (chi a) = 25 \<and> wellFormed (chi a)"
proof -
  from assms(1) obtain a0 a1 a2 a3 a4 a5 a6 a7 a8 a9 a10 a11 a12 a13 a14 a15 a16 a17 a18 a19
      a20 a21 a22 a23 a24
    where "a = [a0, a1, a2, a3, a4, a5, a6, a7, a8, a9, a10, a11, a12, a13, a14, a15, a16, a17,
              a18, a19, a20, a21, a22, a23, a24]"
    by (rule state_elements)
  with assms(2) show ?thesis
    by (simp add: chi_def wellFormed_def length_chiLane)
qed

lemma wellFormed_iota:
  assumes "length a = 25" and "wellFormed a" and "length rc = 64"
  shows "length (iota rc a) = 25 \<and> wellFormed (iota rc a)"
  using assms by (cases a) (simp_all add: wellFormed_def length_xorLane)

lemma wellFormed_keccakRound:
  assumes "length a = 25" and "wellFormed a" and "length rc = 64"
  shows "length (keccakRound rc a) = 25 \<and> wellFormed (keccakRound rc a)"
  unfolding keccakRound_def
  using wellFormed_iota [OF _ _ assms(3)] wellFormed_chi wellFormed_rhoPi
    wellFormed_theta [OF assms(1,2)]
  by blast

lemma wellFormed_rounds:
  "length a = 25 \<Longrightarrow> wellFormed a \<Longrightarrow> wellFormed rcs
    \<Longrightarrow> length (rounds rcs a) = 25 \<and> wellFormed (rounds rcs a)"
proof (induction rcs arbitrary: a)
  case Nil
  then show ?case by simp
next
  case (Cons rc rcs)
  from Cons.prems(3) have rc: "length rc = 64" and rcs: "wellFormed rcs"
    by (simp_all add: wellFormed_def)
  from wellFormed_keccakRound [OF Cons.prems(1,2) rc] Cons.IH [OF _ _ rcs]
  show ?case by simp
qed

lemma wellFormed_roundConstants: "wellFormed (map laneOfHex roundConstants)"
  by code_simp

lemma wellFormed_keccakF:
  "length a = 25 \<Longrightarrow> wellFormed a \<Longrightarrow> length (keccakF a) = 25 \<and> wellFormed (keccakF a)"
  unfolding keccakF_def by (rule wellFormed_rounds [OF _ _ wellFormed_roundConstants])

lemma chunksOf_lengths:
  "0 < n \<Longrightarrow> length xs = k * n
    \<Longrightarrow> length (chunksOf n xs) = k \<and> list_all (\<lambda>c. length c = n) (chunksOf n xs)"
proof (induction k arbitrary: xs)
  case 0
  then show ?case by (simp add: chunksOf.simps)
next
  case (Suc k)
  from Suc.prems have ne: "xs \<noteq> []" by auto
  from Suc.prems have d: "length (drop n xs) = k * n" by simp
  from Suc.prems have t: "length (take n xs) = n" by simp
  from Suc.IH [OF Suc.prems(1) d] ne Suc.prems(1) t show ?case
    by (subst (1 2) chunksOf.simps) simp
qed

lemma concat_chunksOf: "0 < n \<Longrightarrow> concat (chunksOf n xs) = xs"
proof (induction n xs rule: chunksOf.induct)
  case (1 n xs)
  then show ?case by (subst chunksOf.simps) auto
qed

lemma length_reverseBytes: "length (reverseBytes bs) = length bs"
  by (simp add: reverseBytes_def length_concat_rev concat_chunksOf)

lemma pad_multiple:
  assumes "0 < (n::nat)"
  shows "n dvd l + (n - l mod n) mod n"
proof (cases "l mod n = 0")
  case True
  then show ?thesis using assms by (simp add: mod_eq_0_iff_dvd)
next
  case False
  then have r: "0 < l mod n" by simp
  have "l mod n < n" using assms by simp
  with r have m: "(n - l mod n) mod n = n - l mod n" by simp
  have "l = n * (l div n) + l mod n" by simp
  then have "l + (n - l mod n) = n * (l div n) + (l mod n + (n - l mod n))" by linarith
  also have "\<dots> = n * (l div n) + n" using \<open>l mod n < n\<close> by simp
  also have "\<dots> = n * (l div n + 1)" by simp
  finally show ?thesis unfolding m by simp
qed

lemma length_pad: "\<exists>k. length (pad m) = k * 1088"
proof -
  have "length (pad m) = (length m + 2) + (1088 - (length m + 2) mod 1088) mod 1088"
    by (simp add: pad_def)
  moreover have "1088 dvd (length m + 2) + (1088 - (length m + 2) mod 1088) mod 1088"
    by (rule pad_multiple) simp
  ultimately have "1088 dvd length (pad m)" by (simp only:)
  then show ?thesis by (auto simp: dvd_def mult.commute)
qed

lemma wellFormed_absorbBlock:
  assumes "length a = 25" and "wellFormed a" and "length block = 1088"
  shows "length (absorbBlock block a) = 25 \<and> wellFormed (absorbBlock block a)"
proof -
  have "length block = 17 * 64" using assms(3) by simp
  from chunksOf_lengths [OF _ this]
  have c: "length (chunksOf 64 block) = 17" "wellFormed (chunksOf 64 block)"
    by (simp_all add: wellFormed_def)
  let ?b = "chunksOf 64 block @ replicate 8 (replicate 64 False)"
  have b: "length ?b = 25" "wellFormed ?b"
    using c by (simp_all add: wellFormed_def list_all_iff)
  have "length (xorLanes a ?b) = 25" "wellFormed (xorLanes a ?b)"
    using assms(1,2) b by (simp_all add: length_xorLanes wellFormed_xorLanes)
  then show ?thesis unfolding absorbBlock_def by (rule wellFormed_keccakF)
qed

lemma wellFormed_absorb:
  "length a = 25 \<Longrightarrow> wellFormed a \<Longrightarrow> list_all (\<lambda>b. length b = 1088) blocks
    \<Longrightarrow> length (fold absorbBlock blocks a) = 25 \<and> wellFormed (fold absorbBlock blocks a)"
proof (induction blocks arbitrary: a)
  case Nil
  then show ?case by simp
next
  case (Cons block blocks)
  from Cons.prems(3) have b: "length block = 1088"
    and bs: "list_all (\<lambda>b. length b = 1088) blocks" by simp_all
  from wellFormed_absorbBlock [OF Cons.prems(1,2) b] Cons.IH [OF _ _ bs]
  show ?case by simp
qed

lemma length_concat_wellFormed: "wellFormed xs \<Longrightarrow> length (concat xs) = 64 * length xs"
  by (induction xs) (simp_all add: wellFormed_def)

lemma wellFormed_initial:
  "length (replicate 25 (replicate 64 False)) = 25"
  "wellFormed (replicate 25 (replicate 64 False))"
proof -
  show "length (replicate 25 (replicate 64 False)) = 25" by (simp only: length_replicate)
  have "\<forall>l \<in> set (replicate 25 (replicate 64 False)). length l = 64"
    by (metis in_set_replicate length_replicate)
  then show "wellFormed (replicate 25 (replicate 64 False))"
    by (simp only: wellFormed_def list_all_iff)
qed

lemma length_keccak256: "length (keccak256 m) = 256"
proof -
  define s where "s = fold absorbBlock (chunksOf 1088 (pad m)) (replicate 25 (replicate 64 False))"
  obtain k where k: "length (pad m) = k * 1088" using length_pad by blast
  have "(0::nat) < 1088" by simp
  from chunksOf_lengths [OF this k]
  have blocks: "list_all (\<lambda>b. length b = 1088) (chunksOf 1088 (pad m))" by (rule conjunct2)
  have "length s = 25 \<and> wellFormed s"
    unfolding s_def by (rule wellFormed_absorb [OF wellFormed_initial blocks])
  then have "length (take 4 s) = 4" and "wellFormed (take 4 s)"
    by (auto simp: wellFormed_def list_all_iff dest: in_set_takeD)
  from length_concat_wellFormed [OF this(2)] this(1) have "length (concat (take 4 s)) = 256"
    by simp
  then show ?thesis by (simp only: keccak256_def s_def)
qed

lemma length_idHash: "length (idHash id') = 256"
  by (simp add: idHash_def length_reverseBytes length_keccak256)

lemma length_hexDigits: "length (hexDigits n bs) = n"
  by (induction n arbitrary: bs) simp_all

lemma nibbleValue_bound: "nibbleValue bs < 2 ^ length bs"
  by (induction bs) auto

lemma hexDigit_lowercase: "hexDigit bs \<in> set ''0123456789abcdef''"
proof -
  have "nibbleValue (take 4 bs) < 2 ^ length (take 4 bs)" by (rule nibbleValue_bound)
  also have "\<dots> \<le> 2 ^ 4" by (rule power_increasing) simp_all
  finally have "nibbleValue (take 4 bs) < length ''0123456789abcdef''" by simp
  then show ?thesis unfolding hexDigit_def by (rule nth_mem)
qed

lemma set_hexDigits: "set (hexDigits n bs) \<subseteq> set ''0123456789abcdef''"
proof (induction n arbitrary: bs)
  case 0
  show ?case by simp
next
  case (Suc n)
  from Suc [of "drop 4 bs"] hexDigit_lowercase [of bs] show ?case by simp
qed

lemma nibbleValue_numberOf: "nibbleValue bs = numberOf bs"
  by (induction bs) auto

lemma hexDigitValue_hexDigit: "hexDigitValue (hexDigit bs) = numberOf (take 4 bs)"
proof -
  have b: "numberOf (take 4 bs) < 16"
    using numberOf_bound [of "take 4 bs"] power_increasing [of "length (take 4 bs)" 4 "2::nat"]
    by simp
  have "\<forall>k<16. hexDigitValue (''0123456789abcdef'' ! k) = k"
    by (simp add: hexDigitValue_def bitsOfHexDigit_def hexTable_def All_less_Suc numeral_eq_Suc)
  with b show ?thesis by (simp add: hexDigit_def nibbleValue_numberOf)
qed

lemma hexNumber_snoc: "hexNumber (s @ [c]) = 16 * hexNumber s + hexDigitValue c"
  by (simp add: hexNumber_def)

lemma numberOf_take_drop:
  "numberOf (take (4 + n) bs) = numberOf (take 4 bs) + 16 * numberOf (take n (drop 4 bs))"
proof (cases "4 \<le> length bs")
  case True
  have "take (4 + n) bs = take 4 bs @ take n (drop 4 bs)" by (simp add: take_add)
  with True show ?thesis by (simp add: numberOf_append)
next
  case False
  then show ?thesis by simp
qed

lemma hexNumber_hexDigits: "hexNumber (hexDigits n bs) = numberOf (take (4 * n) bs)"
proof (induction n arbitrary: bs)
  case 0
  show ?case by (simp add: hexNumber_def)
next
  case (Suc n)
  have "4 * Suc n = 4 + 4 * n" by simp
  then show ?case
    by (simp only: hexDigits.simps hexNumber_snoc Suc hexDigitValue_hexDigit numberOf_take_drop)
qed

lemma hexNumber_toHex:
  "length bs = 256 \<Longrightarrow> (of_nat (hexNumber (drop 2 (toHex bs))) :: 256 word) = uint256 bs"
  by (simp add: toHex_def hexNumber_hexDigits uint256_def)

lemma bit_numberOf: "bit (numberOf bs) i = (i < length bs \<and> bs ! i)"
proof (induction bs arbitrary: i)
  case Nil
  show ?case by simp
next
  case (Cons b bs)
  show ?case
  proof (cases i)
    case 0
    then show ?thesis by (simp add: bit_0)
  next
    case (Suc j)
    have "(numberOf (b # bs)) div 2 = numberOf bs" by simp
    with Suc Cons [of j] show ?thesis by (simp only: bit_Suc) simp
  qed
qed

lemma bits_uint256:
  assumes "length bs = 256"
  shows "map (bit (uint256 bs)) [0..<256] = bs"
proof (rule nth_equalityI)
  show "length (map (bit (uint256 bs)) [0..<256]) = length bs" using assms by simp
next
  fix i assume "i < length (map (bit (uint256 bs)) [0..<256])"
  then have i: "i < 256" by simp
  then show "map (bit (uint256 bs)) [0..<256] ! i = bs ! i"
    using assms by (simp add: uint256_def bit_of_nat_iff bit_numberOf del: upt_conv_Cons)
qed

lemma length_decrement: "length (decrement bs) = length bs"
  by (induction bs rule: decrement.induct) auto

lemma length_clearLowByte: "8 \<le> length bs \<Longrightarrow> length (clearLowByte bs) = length bs"
  by (simp add: clearLowByte_def)

lemma abiEncode_decrement:
  "abiEncode (keccak256Uint (utf8Bits id') - 1) = reverseBytes (decrement (idHash id'))"
proof -
  have "keccak256Uint (utf8Bits id') - 1 = uint256 (decrement (idHash id'))"
    by (simp add: keccak256Uint_def idHash_def [symmetric] uint256_decrement [OF length_idHash])
  then show ?thesis
    by (simp only: abiEncode_def bits_uint256 length_decrement length_idHash)
qed

lemma computeSlotHash_number:
  "(of_nat (hexNumber (drop 2 (computeSlotHash id'))) :: 256 word) = erc7201 id'"
proof -
  let ?k = "reverseBytes (keccak256 (reverseBytes (decrement (idHash id'))))"
  have l: "length (clearLowByte ?k) = 256"
    by (simp add: length_clearLowByte length_reverseBytes length_keccak256)
  have "(of_nat (hexNumber (drop 2 (computeSlotHash id'))) :: 256 word) = uint256 ?k AND NOT 0xff"
    unfolding computeSlotHash_def by (simp only: hexNumber_toHex [OF l] uint256_clearLowByte)
  also have "uint256 ?k = keccak256Uint (abiEncode (keccak256Uint (utf8Bits id') - 1))"
    by (simp only: abiEncode_decrement) (simp only: keccak256Uint_def)
  finally show ?thesis by (simp only: erc7201_def)
qed

lemma abbreviatedSlot_number:
  "(of_nat (hexNumber (drop 2 (abbreviatedSlot id'))) :: 256 word)
     = (keccak256Uint (utf8Bits id') - 1) AND NOT 0xff"
proof -
  have l: "length (clearLowByte (decrement (idHash id'))) = 256"
    by (simp add: length_clearLowByte length_decrement length_idHash)
  have "(of_nat (hexNumber (drop 2 (abbreviatedSlot id'))) :: 256 word)
      = (uint256 (idHash id') - 1) AND NOT 0xff"
    unfolding abbreviatedSlot_def
    by (simp only: hexNumber_toHex [OF l] uint256_clearLowByte
          uint256_decrement [OF length_idHash])
  then show ?thesis by (simp only: keccak256Uint_def idHash_def)
qed

lemma example_slot:
  "computeSlotHash ''example.main''
    = ''0x183a6125c38840424c4a85fa12bab2ab606c4b6d0e7cc73c0c06ba5300eab500''"
  by code_simp

lemma example_abbreviatedSlot:
  "abbreviatedSlot ''example.main''
    = ''0xb0ae1bb16fc1b16f3e2fb344bef6b08581bbec9f0228f7dd5fd38a8c141b3400''"
  by code_simp

text \<open>
  Claim C1, as amended. \<^verbatim>\<open>computeSlotHash\<close> returns the slot of ERC-7201: read as a
  number, the digits of its output are \<open>K AND NOT 0xff\<close>, where \<open>H\<close> is the digest of the
  bytes of the identifier as an unsigned integer of 256 bits and \<open>K\<close> is the digest of
  the 32 bytes of \<open>H - 1\<close>, in the same reading. For every identifier the output has 66
  characters, starts with \<^verbatim>\<open>0x\<close> and has only digits and the lowercase letters a to f
  after that. For the example identifier of the standard, \<^verbatim>\<open>example.main\<close>, the output
  is the slot the standard publishes.
\<close>

theorem slot_hash_is_standard_slot:
  "(of_nat (hexNumber (drop 2 (computeSlotHash id'))) :: 256 word) = erc7201 id'
   \<and> length (computeSlotHash id') = 66
   \<and> take 2 (computeSlotHash id') = ''0x''
   \<and> set (drop 2 (computeSlotHash id')) \<subseteq> set ''0123456789abcdef''
   \<and> computeSlotHash ''example.main''
       = ''0x183a6125c38840424c4a85fa12bab2ab606c4b6d0e7cc73c0c06ba5300eab500''"
proof -
  let ?bits = "clearLowByte (reverseBytes (keccak256 (reverseBytes (decrement (idHash id')))))"
  have f: "computeSlotHash id' = ''0x'' @ hexDigits 64 ?bits"
    by (simp add: computeSlotHash_def toHex_def)
  have l: "length (computeSlotHash id') = 66"
    unfolding f by (simp add: length_hexDigits)
  have p: "take 2 (computeSlotHash id') = ''0x''"
    unfolding f by simp
  have s: "set (drop 2 (computeSlotHash id')) \<subseteq> set ''0123456789abcdef''"
    unfolding f using set_hexDigits [of 64 ?bits] by simp
  from computeSlotHash_number [of id'] l p s example_slot
  show ?thesis by blast
qed

text \<open>
  Claim C1 as stated fails: the formula it gives, \<open>(H - 1) AND NOT 0xff\<close> with \<open>H\<close> the
  digest of the identifier, does not produce the slot the standard publishes for its
  example identifier, so nothing meets both the formula and the published slot.
\<close>

theorem stated_formula_misses_published_slot:
  "(of_nat (hexNumber (drop 2 (abbreviatedSlot ''example.main''))) :: 256 word)
     = (keccak256Uint (utf8Bits ''example.main'') - 1) AND NOT 0xff
   \<and> abbreviatedSlot ''example.main''
       = ''0xb0ae1bb16fc1b16f3e2fb344bef6b08581bbec9f0228f7dd5fd38a8c141b3400''
   \<and> abbreviatedSlot ''example.main''
       \<noteq> ''0x183a6125c38840424c4a85fa12bab2ab606c4b6d0e7cc73c0c06ba5300eab500''
   \<and> abbreviatedSlot ''example.main'' \<noteq> computeSlotHash ''example.main''"
  using abbreviatedSlot_number [of "''example.main''"]
  by (simp add: example_abbreviatedSlot example_slot)

end
